theory Spec2Isabelle
  imports Main "HOL-Library.Word"
begin

unbundle bit_operations_syntax

section \<open>Bytes, strings and big-endian helpers\<close>

text \<open>
  Go strings and byte slices are sequences of bytes; \<open>len\<close> counts bytes. A Go
  \<open>string\<close> is modelled as a HOL \<open>string\<close> (a list of 8-bit characters), a
  \<open>[]byte\<close> as a list of 8-bit words.
\<close>

type_synonym byte = "8 word"
type_synonym bytes = "byte list"

definition bytes_of :: "string \<Rightarrow> bytes" where
  "bytes_of s = map of_char s"

text \<open>
  Modelled from the spec: \<open>helper.PutUint16\<close> and \<open>helper.PutUint32\<close> are not part of
  the given sources. The specification fixes their byte order as big-endian (request-id
  \<open>0xDEADBEEF\<close> appears on the wire as \<open>DE AD BE EF\<close>, the ChannelData length is
  "big-endian").
\<close>

definition PutUint16 :: "16 word \<Rightarrow> bytes" where
  "PutUint16 w = [ucast (drop_bit 8 w), ucast w]"

definition PutUint32 :: "32 word \<Rightarrow> bytes" where
  "PutUint32 w = [ucast (drop_bit 24 w), ucast (drop_bit 16 w), ucast (drop_bit 8 w), ucast w]"

text \<open>
  \<open>strings.Split(s, ".")\<close> of the Go standard library, for a one-byte separator: the
  substrings between the separators, in order; the empty string yields one empty part.
\<close>

fun Split :: "string \<Rightarrow> char \<Rightarrow> string list" where
  "Split [] sep = [[]]"
| "Split (c # cs) sep =
     (if c = sep then [] # Split cs sep
      else (case Split cs sep of
              [] \<Rightarrow> [[c]]
            | p # ps \<Rightarrow> (c # p) # ps))"

section \<open>Probe payloads of the UDP scanner\<close>

text \<open>
  \<open>snmpScan\<close>, lines 115--146: the variables \<open>inner\<close>, \<open>snmp\<close> and \<open>buf\<close>.
  \<open>community\<close> is the community string, \<open>r\<close> the value of \<open>rand.Uint32()\<close>,
  \<open>channelNumber\<close> the bytes returned by \<open>helper.RandomChannelNumber()\<close>.
  \<open>uint8(len(..))\<close> and \<open>uint16(len(..))\<close> truncate, which \<open>of_nat\<close> into a word does.
\<close>

definition snmp_inner :: "string \<Rightarrow> 32 word \<Rightarrow> bytes" where
  "snmp_inner community r =
     [0x02, 0x01, 1, 0x04]
     @ [of_nat (length community)]
     @ bytes_of community
     @ [0xa1, 0x19, 0x02, 0x04]
     @ PutUint32 r
     @ [0x02, 0x01, 0x00, 0x02, 0x01, 0x00, 0x30, 0x0b, 0x30, 0x09,
        0x06, 0x05, 0x2b, 0x06, 0x01, 0x02, 0x01, 0x05, 0x00]"

definition snmp_bytes :: "string \<Rightarrow> 32 word \<Rightarrow> bytes" where
  "snmp_bytes community r =
     [0x30] @ [of_nat (length (snmp_inner community r))] @ snmp_inner community r"

definition snmp_buf :: "bytes \<Rightarrow> string \<Rightarrow> 32 word \<Rightarrow> bytes" where
  "snmp_buf channelNumber community r =
     channelNumber
     @ PutUint16 (of_nat (length (snmp_bytes community r)))
     @ snmp_bytes community r"

text \<open>
  \<open>dnsScan\<close>, lines 199--235: the loop over \<open>domainParts\<close> and the variables
  \<open>domainBuf\<close>, \<open>dns\<close> and \<open>buf\<close>. \<open>uint16(rand.Uint32())\<close> keeps the low 16 bits.
\<close>

fun domain_labels :: "string list \<Rightarrow> bytes" where
  "domain_labels [] = []"
| "domain_labels (x # xs) = [of_nat (length x)] @ bytes_of x @ domain_labels xs"

definition domainBuf :: "string \<Rightarrow> bytes" where
  "domainBuf dnsName =
     domain_labels (Split dnsName CHR ''.'')
     @ [0x00]
     @ PutUint16 1
     @ PutUint16 1"

definition dns_bytes :: "string \<Rightarrow> 32 word \<Rightarrow> bytes" where
  "dns_bytes dnsName r =
     PutUint16 (ucast r)
     @ [0x01, 0x00]
     @ PutUint16 1
     @ PutUint16 0
     @ PutUint16 0
     @ PutUint16 0
     @ domainBuf dnsName"

definition dns_buf :: "bytes \<Rightarrow> string \<Rightarrow> 32 word \<Rightarrow> bytes" where
  "dns_buf channelNumber dnsName r =
     channelNumber
     @ PutUint16 (of_nat (length (dns_bytes dnsName r)))
     @ dns_bytes dnsName r"

section \<open>Errors and the scanner's configuration\<close>

text \<open>
  Go errors as values. \<open>ErrTimeout\<close> is the sentinel \<open>helper.ErrTimeout\<close>; \<open>Errorf m\<close> is
  an error carrying a message only (\<open>fmt.Errorf\<close> without \<open>%w\<close>); \<open>Wrap m e\<close> is
  \<open>fmt.Errorf("m: %w", e)\<close>, which keeps \<open>e\<close> reachable for \<open>errors.Is\<close>.
\<close>

datatype error = ErrTimeout | Errorf string | Wrap string error

fun errors_Is :: "error \<Rightarrow> error \<Rightarrow> bool" where
  "errors_Is (Wrap m e) target = (Wrap m e = target \<or> errors_Is e target)"
| "errors_Is e target = (e = target)"

type_synonym Addr = bytes

datatype Logger = Logger

record UDPScannerOpts =
  TurnServer :: string
  Protocol :: string
  Username :: string
  Password :: string
  UseTLS :: bool
  TlsVerify :: bool
  Timeout :: int
  Log :: "Logger option"
  CommunityString :: string
  DomainName :: string
  IPs :: "string list"

text \<open>\<open>UDPScannerOpts.Validate\<close>, lines 30--58; \<open>None\<close> is Go's \<open>nil\<close> error.\<close>

definition Validate :: "UDPScannerOpts \<Rightarrow> error option" where
  "Validate opts =
     (if TurnServer opts = [] then Some (Errorf ''need a valid turnserver'')
      else if CHR '':'' \<notin> set (TurnServer opts) then Some (Errorf ''turnserver needs a port'')
      else if Protocol opts \<noteq> ''tcp'' \<and> Protocol opts \<noteq> ''udp''
        then Some (Errorf ''protocol needs to be either tcp or udp'')
      else if Username opts = [] then Some (Errorf ''please supply a username'')
      else if Password opts = [] then Some (Errorf ''please supply a password'')
      else if Log opts = None then Some (Errorf ''please supply a valid logger'')
      else if CommunityString opts = [] then Some (Errorf ''please supply a valid community string'')
      else if DomainName opts = [] then Some (Errorf ''please supply a valid domain name'')
      else None)"

section \<open>STUN messages as far as the given sources read them\<close>

datatype MsgTypeClass =
  MsgTypeClassRequest | MsgTypeClassIndication | MsgTypeClassSuccess | MsgTypeClassError

datatype AttributeType = AttrRealm | AttrNonce | AttrOther "16 word"

text \<open>
  The sources read three things of a response: \<open>Header.MessageType.Class\<close>,
  \<open>GetAttribute(t).Value\<close> and \<open>GetErrorString()\<close>. The message type and both methods
  live in package \<open>internal\<close>, outside the given sources; the error string is carried
  with the message.
\<close>

record Stun =
  Class :: MsgTypeClass
  Attributes :: "(AttributeType \<times> bytes) list"
  ErrorString :: string

text \<open>
  Modelled from the spec: \<open>Stun.GetAttribute\<close> is not part of the given sources. A
  message is a header with an attribute sequence, each attribute a type code with its
  value bytes; the lookup returns the value of the first attribute of the type, and the
  empty value when there is none.
\<close>

definition GetAttribute :: "Stun \<Rightarrow> AttributeType \<Rightarrow> bytes" where
  "GetAttribute m t = (case map_of (Attributes m) t of None \<Rightarrow> [] | Some v \<Rightarrow> v)"

definition string_of :: "bytes \<Rightarrow> string" where
  "string_of bs = map (\<lambda>b. char_of (unat b)) bs"

section \<open>The UDP scanner\<close>

text \<open>
  What a probe calls outside the given sources, as the behaviour of one TURN session:
  each field is the outcome of the call of that name during the session. A sum is a Go
  result with an error (\<open>Inl\<close> the error), an option a bare \<open>error\<close>.
  \<open>SetupTurnConnection\<close> yields \<open>(realm, nonce)\<close>; the connection \<open>remote\<close> is the
  session itself.
\<close>

record turn_session =
  SetupTurnConnection :: "error + (string \<times> string)"
  RandomChannelNumber :: bytes
  ChannelBindRequest ::
    "string \<Rightarrow> string \<Rightarrow> string \<Rightarrow> string \<Rightarrow> Addr \<Rightarrow> 16 word \<Rightarrow> bytes \<Rightarrow> error + Stun"
  SendAndReceive :: "Stun \<Rightarrow> error + Stun"
  rand_Uint32 :: "32 word"
  ConnectionWrite :: "bytes \<Rightarrow> error option"
  ConnectionRead :: "error + bytes"
  ExtractChannelData :: "bytes \<Rightarrow> error + (bytes \<times> bytes)"

text \<open>
  What the scanner does to the outside, in order: the TURN sessions it opens, the
  buffers it writes, the connections it closes and the lines it logs.
\<close>

datatype event =
    Call_SetupTurnConnection Addr "16 word"
  | Call_ConnectionWrite bytes
  | Call_Close
  | Log_Error error
  | Log_Debugf_Scanning Addr
  | Log_Errorf_SNMP Addr error
  | Log_Errorf_DNS Addr error
  | Log_Infof_received nat bytes Addr
  | Log_Infof_UDP_Response string

text \<open>
  \<open>snmpScan\<close>, lines 89--171. The result is the returned error and the events of the
  call. \<open>defer remote.Close()\<close> runs on every return after a successful setup.
  Both probes are reached only through \<open>UDPScanner\<close>, after \<open>Validate\<close> has
  excluded a nil logger.
\<close>

definition snmpScan ::
  "UDPScannerOpts \<Rightarrow> turn_session \<Rightarrow> Addr \<Rightarrow> 16 word \<Rightarrow> string \<Rightarrow> error option \<times> event list"
where
  "snmpScan opts net ip port community =
     (case SetupTurnConnection net of
        Inl err \<Rightarrow>
          (if errors_Is err ErrTimeout then (None, [Call_SetupTurnConnection ip port])
           else (Some err, [Call_SetupTurnConnection ip port]))
      | Inr (realm, nonce) \<Rightarrow>
          (let channelNumber = RandomChannelNumber net in
           case ChannelBindRequest net (Username opts) (Password opts) nonce realm ip port
                  channelNumber of
             Inl err \<Rightarrow>
               (Some (Wrap ''error on generating ChannelBindRequest'' err),
                [Call_SetupTurnConnection ip port, Call_Close])
           | Inr channelBindRequest \<Rightarrow>
               (case SendAndReceive net channelBindRequest of
                  Inl err \<Rightarrow>
                    (Some (Wrap ''error on sending ChannelBindRequest'' err),
                     [Call_SetupTurnConnection ip port, Call_Close])
                | Inr channelBindResponse \<Rightarrow>
                    if Class channelBindResponse = MsgTypeClassError
                    then (Some (Errorf (''error on ChannelBind: '' @ ErrorString channelBindResponse)),
                          [Call_SetupTurnConnection ip port, Call_Close])
                    else
                      (let buf = snmp_buf channelNumber community (rand_Uint32 net) in
                       case ConnectionWrite net buf of
                         Some err \<Rightarrow>
                           (Some (Wrap ''error on sending SNMP request'' err),
                            [Call_SetupTurnConnection ip port, Call_ConnectionWrite buf, Call_Close])
                       | None \<Rightarrow>
                           (case ConnectionRead net of
                              Inl err \<Rightarrow>
                                (if errors_Is err ErrTimeout
                                 then (None,
                                       [Call_SetupTurnConnection ip port, Call_ConnectionWrite buf,
                                        Call_Close])
                                 else (Some (Wrap ''error on reading SNMP response'' err),
                                       [Call_SetupTurnConnection ip port, Call_ConnectionWrite buf,
                                        Call_Close]))
                            | Inr resp \<Rightarrow>
                                (case ExtractChannelData net resp of
                                   Inl err \<Rightarrow>
                                     (Some err,
                                      [Call_SetupTurnConnection ip port, Call_ConnectionWrite buf,
                                       Call_Close])
                                 | Inr (channel, data) \<Rightarrow>
                                     (None,
                                      [Call_SetupTurnConnection ip port, Call_ConnectionWrite buf,
                                       Log_Infof_received (length data) channel ip,
                                       Log_Infof_UDP_Response (string_of resp),
                                       Call_Close])))))))"

text \<open>\<open>dnsScan\<close>, lines 173--260: the same steps around the DNS payload.\<close>

definition dnsScan ::
  "UDPScannerOpts \<Rightarrow> turn_session \<Rightarrow> Addr \<Rightarrow> 16 word \<Rightarrow> string \<Rightarrow> error option \<times> event list"
where
  "dnsScan opts net ip port dnsName =
     (case SetupTurnConnection net of
        Inl err \<Rightarrow>
          (if errors_Is err ErrTimeout then (None, [Call_SetupTurnConnection ip port])
           else (Some err, [Call_SetupTurnConnection ip port]))
      | Inr (realm, nonce) \<Rightarrow>
          (let channelNumber = RandomChannelNumber net in
           case ChannelBindRequest net (Username opts) (Password opts) nonce realm ip port
                  channelNumber of
             Inl err \<Rightarrow>
               (Some (Wrap ''error on generating ChannelBindRequest'' err),
                [Call_SetupTurnConnection ip port, Call_Close])
           | Inr channelBindRequest \<Rightarrow>
               (case SendAndReceive net channelBindRequest of
                  Inl err \<Rightarrow>
                    (Some (Wrap ''error on sending ChannelBindRequest'' err),
                     [Call_SetupTurnConnection ip port, Call_Close])
                | Inr channelBindResponse \<Rightarrow>
                    if Class channelBindResponse = MsgTypeClassError
                    then (Some (Errorf (''error on ChannelBind: '' @ ErrorString channelBindResponse)),
                          [Call_SetupTurnConnection ip port, Call_Close])
                    else
                      (let buf = dns_buf channelNumber dnsName (rand_Uint32 net) in
                       case ConnectionWrite net buf of
                         Some err \<Rightarrow>
                           (Some (Wrap ''error on sending DNS request'' err),
                            [Call_SetupTurnConnection ip port, Call_ConnectionWrite buf, Call_Close])
                       | None \<Rightarrow>
                           (case ConnectionRead net of
                              Inl err \<Rightarrow>
                                (if errors_Is err ErrTimeout
                                 then (None,
                                       [Call_SetupTurnConnection ip port, Call_ConnectionWrite buf,
                                        Call_Close])
                                 else (Some (Wrap ''error on reading DNS response'' err),
                                       [Call_SetupTurnConnection ip port, Call_ConnectionWrite buf,
                                        Call_Close]))
                            | Inr resp \<Rightarrow>
                                (case ExtractChannelData net resp of
                                   Inl err \<Rightarrow>
                                     (Some err,
                                      [Call_SetupTurnConnection ip port, Call_ConnectionWrite buf,
                                       Call_Close])
                                 | Inr (channel, data) \<Rightarrow>
                                     (None,
                                      [Call_SetupTurnConnection ip port, Call_ConnectionWrite buf,
                                       Log_Infof_received (length data) channel ip,
                                       Log_Infof_UDP_Response (string_of resp),
                                       Call_Close])))))))"

text \<open>
  The collaborators of \<open>UDPScanner\<close>: the constant \<open>helper.PrivateRanges\<close>, the
  iterator \<open>helper.IPIterator\<close> and the network. The iterator's channel delivers items
  \<open>(IP, Error)\<close> and is closed after the last address of the finitely many ranges, so
  what it delivers is a list. \<open>sessions j p\<close> is the TURN session opened for the
  \<open>j\<close>-th delivered item toward port \<open>p\<close>.
\<close>

record ip_item =
  IP :: Addr
  Error :: "error option"

record scan_env =
  PrivateRanges :: "string list"
  IPIterator :: "string list \<Rightarrow> ip_item list"
  sessions :: "nat \<Rightarrow> 16 word \<Rightarrow> turn_session"

text \<open>The body of the \<open>for ip := range ipChan\<close> loop, lines 73--83, for item number \<open>j\<close>.\<close>

definition scan_item ::
  "UDPScannerOpts \<Rightarrow> (nat \<Rightarrow> 16 word \<Rightarrow> turn_session) \<Rightarrow> nat \<Rightarrow> ip_item \<Rightarrow> event list"
where
  "scan_item opts net j ip =
     (case Error ip of
        Some e \<Rightarrow> [Log_Error e]
      | None \<Rightarrow>
          [Log_Debugf_Scanning (IP ip)]
          @ snd (snmpScan opts (net j 161) (IP ip) 161 (CommunityString opts))
          @ (case fst (snmpScan opts (net j 161) (IP ip) 161 (CommunityString opts)) of
               Some err \<Rightarrow> [Log_Errorf_SNMP (IP ip) err]
             | None \<Rightarrow> [])
          @ snd (dnsScan opts (net j 53) (IP ip) 53 (DomainName opts))
          @ (case fst (dnsScan opts (net j 53) (IP ip) 53 (DomainName opts)) of
               Some err \<Rightarrow> [Log_Errorf_DNS (IP ip) err]
             | None \<Rightarrow> []))"

fun scan_loop ::
  "UDPScannerOpts \<Rightarrow> (nat \<Rightarrow> 16 word \<Rightarrow> turn_session) \<Rightarrow> nat \<Rightarrow> ip_item list \<Rightarrow> event list"
where
  "scan_loop opts net j [] = []"
| "scan_loop opts net j (ip # ipChan) = scan_item opts net j ip @ scan_loop opts net (Suc j) ipChan"

text \<open>\<open>UDPScanner\<close>, lines 60--87: the returned error and the events of the whole scan.\<close>

definition UDPScanner :: "scan_env \<Rightarrow> UDPScannerOpts \<Rightarrow> error option \<times> event list" where
  "UDPScanner env opts =
     (case Validate opts of
        Some err \<Rightarrow> (Some err, [])
      | None \<Rightarrow>
          (let ipInput = (if length (IPs opts) = 0 then PrivateRanges env else IPs opts);
               ipChan = IPIterator env ipInput
           in (None, scan_loop opts (sessions env) 0 ipChan)))"

section \<open>The SOCKS handler\<close>

text \<open>
  \<open>SocksTurnTCPHandler\<close>. The fields \<open>Ctx\<close>, \<open>Timeout\<close>, \<open>UseTLS\<close>, \<open>TlsVerify\<close>
  and \<open>Log\<close> are only handed on to the collaborators below, whose behaviour is a
  parameter; they are left out of the record. The handler keeps no realm and no nonce.
\<close>

type_synonym Conn = nat

record SocksTurnTCPHandler =
  ControlConnection :: "Conn option"
  TURNUsername :: string
  TURNPassword :: string
  Server :: string
  DropNonPrivateRequests :: bool

datatype RequestAddressType =
    RequestAddressTypeIPv4
  | RequestAddressTypeDomainname
  | RequestAddressTypeIPv6
  | RequestAddressTypeOther byte

datatype RequestReplyReason = RequestReplyHostUnreachable | RequestReplyAddressTypeNotSupported

record socks_Request =
  AddressType :: RequestAddressType
  DestinationAddress :: bytes
  DestinationPort :: "16 word"

record socks_Error =
  Reason :: RequestReplyReason
  Err :: error

text \<open>
  The collaborators of \<open>PreHandler\<close>, all outside the given sources: the resolver
  \<open>helper.ResolveName\<close>, the predicate \<open>helper.IsPrivateIP\<close> and
  \<open>internal.SetupTurnTCPConnection\<close>, which yields \<open>(controlConnection, dataConnection)\<close>.
\<close>

record socks_env =
  ResolveName :: "string \<Rightarrow> error + Addr list"
  IsPrivateIP :: "Addr \<Rightarrow> bool"
  SetupTurnTCPConnection ::
    "string \<Rightarrow> Addr \<Rightarrow> 16 word \<Rightarrow> string \<Rightarrow> string \<Rightarrow> error + (Conn \<times> Conn)"

datatype socks_event =
    Call_SetupTurnTCPConnection Addr "16 word"
  | SLog_Debugf_dropping Addr "16 word"
  | SLog_Debug string
  | SLog_Error error
  | SLog_Error_string string

text \<open>\<open>netip.AddrFromSlice\<close> of the Go standard library: a slice of 4 or 16 bytes is an address.\<close>

definition AddrFromSlice :: "bytes \<Rightarrow> Addr option" where
  "AddrFromSlice sl = (if length sl = 4 \<or> length sl = 16 then Some sl else None)"

text \<open>
  \<open>PreHandler\<close>, lines 34--54: the \<open>switch\<close> on the address type, which either
  returns a \<open>socks.Error\<close> or finds the \<open>target\<close>.
\<close>

definition switch_target :: "socks_env \<Rightarrow> socks_Request \<Rightarrow> socks_Error + Addr" where
  "switch_target env request =
     (case AddressType request of
        RequestAddressTypeIPv4 \<Rightarrow>
          (case AddrFromSlice (DestinationAddress request) of
             None \<Rightarrow>
               Inl \<lparr>Reason = RequestReplyAddressTypeNotSupported, Err = Errorf ''is no ip address''\<rparr>
           | Some tmp \<Rightarrow> Inr tmp)
      | RequestAddressTypeIPv6 \<Rightarrow>
          (case AddrFromSlice (DestinationAddress request) of
             None \<Rightarrow>
               Inl \<lparr>Reason = RequestReplyAddressTypeNotSupported, Err = Errorf ''is no ip address''\<rparr>
           | Some tmp \<Rightarrow> Inr tmp)
      | RequestAddressTypeDomainname \<Rightarrow>
          (case ResolveName env (string_of (DestinationAddress request)) of
             Inl err \<Rightarrow> Inl \<lparr>Reason = RequestReplyHostUnreachable, Err = err\<rparr>
           | Inr names \<Rightarrow>
               (case names of
                  [] \<Rightarrow>
                    Inl \<lparr>Reason = RequestReplyHostUnreachable, Err = Errorf ''could not be resolved''\<rparr>
                | name0 # _ \<Rightarrow> Inr name0))
      | RequestAddressTypeOther t \<Rightarrow>
          Inl \<lparr>Reason = RequestReplyAddressTypeNotSupported,
               Err = Errorf ''AddressType not implemented''\<rparr>)"

text \<open>
  \<open>PreHandler\<close>, lines 56--68: what follows the \<open>switch\<close>, for the \<open>target\<close> it has
  found. The result is the returned pair (\<open>Inl\<close> the \<open>socks.Error\<close>, \<open>Inr\<close> the data
  connection), the handler after the call and the events of the call.
\<close>

definition connect_target ::
  "socks_env \<Rightarrow> SocksTurnTCPHandler \<Rightarrow> socks_Request \<Rightarrow> Addr
     \<Rightarrow> (socks_Error + Conn) \<times> SocksTurnTCPHandler \<times> socks_event list"
where
  "connect_target env s request target =
     (if DropNonPrivateRequests s \<and> \<not> IsPrivateIP env target
      then (Inl \<lparr>Reason = RequestReplyHostUnreachable,
                 Err = Errorf ''dropping non private connection''\<rparr>,
            s, [SLog_Debugf_dropping target (DestinationPort request)])
      else
        (case SetupTurnTCPConnection env (Server s) target (DestinationPort request)
                (TURNUsername s) (TURNPassword s) of
           Inl err \<Rightarrow>
             (Inl \<lparr>Reason = RequestReplyHostUnreachable, Err = err\<rparr>, s,
              [Call_SetupTurnTCPConnection target (DestinationPort request)])
         | Inr (controlConnection, dataConnection) \<Rightarrow>
             (Inr dataConnection, s\<lparr>ControlConnection := Some controlConnection\<rparr>,
              [Call_SetupTurnTCPConnection target (DestinationPort request)])))"

text \<open>\<open>PreHandler\<close>, lines 33--69.\<close>

definition PreHandler ::
  "socks_env \<Rightarrow> SocksTurnTCPHandler \<Rightarrow> socks_Request
     \<Rightarrow> (socks_Error + Conn) \<times> SocksTurnTCPHandler \<times> socks_event list"
where
  "PreHandler env s request =
     (case switch_target env request of
        Inl e \<Rightarrow> (Inl e, s, [])
      | Inr target \<Rightarrow> connect_target env s request target)"

text \<open>
  \<open>Refresh\<close>, lines 72--103. \<open>internal.RefreshRequest(username, password, nonce, realm)\<close>
  is outside the given sources; a request is kept as its four arguments, in that order.
  The \<open>select\<close> waits for the first of \<open>ctx.Done()\<close> and \<open>tick.C\<close>; the list gives what
  arrives, in order, and an empty list is a wait that never ends (\<open>returned\<close> is false).
  \<open>control k r\<close> is the outcome of \<open>SendAndReceive\<close> on the control connection for the
  \<open>k\<close>-th request \<open>r\<close> of the call. \<open>unread\<close> is what has arrived and was not taken.
\<close>

datatype request = RefreshRequest string string string string

datatype select_case = ctx_Done | tick_C

record refresh_run =
  sent :: "request list"
  logged :: "socks_event list"
  unread :: "select_case list"
  returned :: bool

definition Refresh ::
  "SocksTurnTCPHandler \<Rightarrow> (nat \<Rightarrow> request \<Rightarrow> error + Stun) \<Rightarrow> select_case list \<Rightarrow> refresh_run"
where
  "Refresh s control arrivals =
     (let nonce = []; realm = [] in
      case arrivals of
        [] \<Rightarrow> \<lparr>sent = [], logged = [], unread = [], returned = False\<rparr>
      | ctx_Done # rest \<Rightarrow> \<lparr>sent = [], logged = [], unread = rest, returned = True\<rparr>
      | tick_C # rest \<Rightarrow>
          (let refresh = RefreshRequest (TURNUsername s) (TURNPassword s) nonce realm in
           case control 0 refresh of
             Inl err \<Rightarrow>
               \<lparr>sent = [refresh],
                logged = [SLog_Debug ''[socks] refreshing connection'', SLog_Error err],
                unread = rest, returned = True\<rparr>
           | Inr response \<Rightarrow>
               if Class response = MsgTypeClassError
               then
                 (let realm' = string_of (GetAttribute response AttrRealm);
                      nonce' = string_of (GetAttribute response AttrNonce);
                      refresh' = RefreshRequest (TURNUsername s) (TURNPassword s) nonce' realm'
                  in
                  case control 1 refresh' of
                    Inl err \<Rightarrow>
                      \<lparr>sent = [refresh, refresh'],
                       logged = [SLog_Debug ''[socks] refreshing connection'', SLog_Error err],
                       unread = rest, returned = True\<rparr>
                  | Inr response' \<Rightarrow>
                      if Class response' = MsgTypeClassError
                      then
                        \<lparr>sent = [refresh, refresh'],
                         logged = [SLog_Debug ''[socks] refreshing connection'',
                                   SLog_Error_string (ErrorString response')],
                         unread = rest, returned = True\<rparr>
                      else
                        \<lparr>sent = [refresh, refresh'],
                         logged = [SLog_Debug ''[socks] refreshing connection''],
                         unread = rest, returned = True\<rparr>)
               else
                 \<lparr>sent = [refresh],
                  logged = [SLog_Debug ''[socks] refreshing connection''],
                  unread = rest, returned = True\<rparr>))"

section \<open>Notions used to state the properties\<close>

text \<open>
  How far a probe gets, read off a session: the setup ends in a timeout; the probe gets
  as far as \<open>ConnectionRead\<close> (setup, generation of the ChannelBind request, its
  exchange with a non-error answer and the write of \<open>buf\<close> all succeed); the read ends
  in a timeout; a response is read and its channel data extracted.
\<close>

definition setup_timed_out :: "turn_session \<Rightarrow> bool" where
  "setup_timed_out net =
     (case SetupTurnConnection net of Inl e \<Rightarrow> errors_Is e ErrTimeout | Inr _ \<Rightarrow> False)"

definition reaches_read ::
  "UDPScannerOpts \<Rightarrow> turn_session \<Rightarrow> Addr \<Rightarrow> 16 word \<Rightarrow> bytes \<Rightarrow> bool"
where
  "reaches_read opts net ip port buf =
     (case SetupTurnConnection net of
        Inl _ \<Rightarrow> False
      | Inr (realm, nonce) \<Rightarrow>
          (case ChannelBindRequest net (Username opts) (Password opts) nonce realm ip port
                  (RandomChannelNumber net) of
             Inl _ \<Rightarrow> False
           | Inr req \<Rightarrow>
               (case SendAndReceive net req of
                  Inl _ \<Rightarrow> False
                | Inr resp \<Rightarrow>
                    Class resp \<noteq> MsgTypeClassError \<and> ConnectionWrite net buf = None)))"

definition read_timed_out :: "turn_session \<Rightarrow> bool" where
  "read_timed_out net =
     (case ConnectionRead net of Inl e \<Rightarrow> errors_Is e ErrTimeout | Inr _ \<Rightarrow> False)"

definition response_extracted :: "turn_session \<Rightarrow> bool" where
  "response_extracted net =
     (case ConnectionRead net of
        Inl _ \<Rightarrow> False
      | Inr resp \<Rightarrow> (case ExtractChannelData net resp of Inl _ \<Rightarrow> False | Inr _ \<Rightarrow> True))"

text \<open>
  The probe gets as far as \<open>ConnectionWrite\<close>: setup, generation of the ChannelBind
  request and its exchange with a non-error answer all succeed.
\<close>

definition reaches_write :: "UDPScannerOpts \<Rightarrow> turn_session \<Rightarrow> Addr \<Rightarrow> 16 word \<Rightarrow> bool" where
  "reaches_write opts net ip port =
     (case SetupTurnConnection net of
        Inl _ \<Rightarrow> False
      | Inr (realm, nonce) \<Rightarrow>
          (case ChannelBindRequest net (Username opts) (Password opts) nonce realm ip port
                  (RandomChannelNumber net) of
             Inl _ \<Rightarrow> False
           | Inr req \<Rightarrow>
               (case SendAndReceive net req of
                  Inl _ \<Rightarrow> False
                | Inr resp \<Rightarrow> Class resp \<noteq> MsgTypeClassError)))"

text \<open>The items the scan iterates over, lines 65--70.\<close>

definition scan_items :: "scan_env \<Rightarrow> UDPScannerOpts \<Rightarrow> ip_item list" where
  "scan_items env opts =
     IPIterator env (if length (IPs opts) = 0 then PrivateRanges env else IPs opts)"

fun is_log_event :: "event \<Rightarrow> bool" where
  "is_log_event (Call_SetupTurnConnection _ _) = False"
| "is_log_event (Call_ConnectionWrite _) = False"
| "is_log_event Call_Close = False"
| "is_log_event _ = True"

section \<open>Concrete inputs\<close>

definition success_response :: Stun where
  "success_response = \<lparr>Class = MsgTypeClassSuccess, Attributes = [], ErrorString = []\<rparr>"

definition stale_response :: Stun where
  "stale_response =
     \<lparr>Class = MsgTypeClassError,
      Attributes = [(AttrRealm, bytes_of ''example.org''), (AttrNonce, bytes_of ''n2'')],
      ErrorString = ''438 Stale Nonce''\<rparr>"

text \<open>A session in which every step succeeds and a peer answers with four bytes.\<close>

definition answering_session :: turn_session where
  "answering_session =
     \<lparr>SetupTurnConnection = Inr (''example.org'', ''n1''),
      RandomChannelNumber = [0x40, 0x00],
      ChannelBindRequest = (\<lambda>u p n r ip port ch. Inr success_response),
      SendAndReceive = (\<lambda>m. Inr success_response),
      rand_Uint32 = 0xDEADBEEF,
      ConnectionWrite = (\<lambda>b. None),
      ConnectionRead = Inr [0x40, 0x00, 0x00, 0x00],
      ExtractChannelData = (\<lambda>b. Inr (take 2 b, drop 4 b))\<rparr>"

text \<open>The same session with a silent peer, one whose setup times out, one that is refused.\<close>

definition silent_session :: turn_session where
  "silent_session = answering_session\<lparr>ConnectionRead := Inl ErrTimeout\<rparr>"

definition unreachable_session :: turn_session where
  "unreachable_session =
     answering_session\<lparr>SetupTurnConnection := Inl (Wrap ''dial'' ErrTimeout)\<rparr>"

definition refused_session :: turn_session where
  "refused_session =
     answering_session\<lparr>SetupTurnConnection := Inl (Errorf ''connection refused'')\<rparr>"

definition demo_opts :: UDPScannerOpts where
  "demo_opts =
     \<lparr>TurnServer = ''turn.example.org:3478'', Protocol = ''tcp'', Username = ''u'',
      Password = ''pw'', UseTLS = False, TlsVerify = False, Timeout = 1,
      Log = Some Logger, CommunityString = ''private'', DomainName = ''a.b'',
      IPs = [''10.0.0.1'', ''bad'']\<rparr>"

definition long_opts :: UDPScannerOpts where
  "long_opts = demo_opts\<lparr>CommunityString := replicate 300 CHR ''a''\<rparr>"

definition no_user_opts :: UDPScannerOpts where
  "no_user_opts = demo_opts\<lparr>Username := []\<rparr>"

definition long_label_opts :: UDPScannerOpts where
  "long_label_opts = demo_opts\<lparr>DomainName := replicate 300 CHR ''a''\<rparr>"

text \<open>
  A scan of two items, an address and an iteration error: the SNMP probe of the address
  is refused, its DNS probe meets a silent peer.
\<close>

definition demo_env :: scan_env where
  "demo_env =
     \<lparr>PrivateRanges = [''10.0.0.0/8''],
      IPIterator = (\<lambda>ranges. [\<lparr>IP = [10, 0, 0, 1], Error = None\<rparr>,
                               \<lparr>IP = [], Error = Some (Errorf ''invalid ip'')\<rparr>]),
      sessions = (\<lambda>j p. if p = 161 then refused_session else silent_session)\<rparr>"

text \<open>A scan of one address where both probes are written and meet a silent peer.\<close>

definition silent_env :: scan_env where
  "silent_env =
     \<lparr>PrivateRanges = [''10.0.0.0/8''],
      IPIterator = (\<lambda>ranges. [\<lparr>IP = [10, 0, 0, 1], Error = None\<rparr>]),
      sessions = (\<lambda>j p. silent_session)\<rparr>"

text \<open>A scan of one address where the setup of both probes is refused.\<close>

definition refused_env :: scan_env where
  "refused_env =
     \<lparr>PrivateRanges = [''10.0.0.0/8''],
      IPIterator = (\<lambda>ranges. [\<lparr>IP = [10, 0, 0, 1], Error = None\<rparr>]),
      sessions = (\<lambda>j p. refused_session)\<rparr>"

definition demo_handler :: SocksTurnTCPHandler where
  "demo_handler =
     \<lparr>ControlConnection = Some 1, TURNUsername = ''u'', TURNPassword = ''pw'',
      Server = ''turn.example.org:3478'', DropNonPrivateRequests = True\<rparr>"

text \<open>
  Scenario 6 of the specification: \<open>CONNECT www.example.com:80\<close>, resolved to
  \<open>93.184.216.34\<close>, which is not private.
\<close>

definition demo_socks_env :: socks_env where
  "demo_socks_env =
     \<lparr>ResolveName = (\<lambda>name. Inr [[93, 184, 216, 34]]),
      IsPrivateIP = (\<lambda>a. take 1 a = [10]),
      SetupTurnTCPConnection = (\<lambda>server target port u p. Inr (1, 2))\<rparr>"

definition demo_request :: socks_Request where
  "demo_request =
     \<lparr>AddressType = RequestAddressTypeDomainname,
      DestinationAddress = bytes_of ''www.example.com'',
      DestinationPort = 80\<rparr>"

text \<open>
  Control connections: one that accepts every Refresh, one that accepts a Refresh only
  with the nonce \<open>n2\<close> and answers anything else with \<open>stale_response\<close>, one that
  answers every Refresh with \<open>stale_response\<close>.
\<close>

definition accepting_control :: "nat \<Rightarrow> request \<Rightarrow> error + Stun" where
  "accepting_control k r = Inr success_response"

fun nonce_control :: "nat \<Rightarrow> request \<Rightarrow> error + Stun" where
  "nonce_control k (RefreshRequest u p nonce realm) =
     (if nonce = ''n2'' then Inr success_response else Inr stale_response)"

definition rejecting_control :: "nat \<Rightarrow> request \<Rightarrow> error + Stun" where
  "rejecting_control k r = Inr stale_response"

section \<open>Lengths of the probe payloads\<close>

lemma length_PutUint16: "length (PutUint16 w) = 2"
  by (simp add: PutUint16_def)

lemma length_PutUint32: "length (PutUint32 w) = 4"
  by (simp add: PutUint32_def)

lemma length_snmp_inner: "length (snmp_inner community r) = 32 + length community"
  by (simp add: snmp_inner_def bytes_of_def length_PutUint32)

lemma length_snmp_bytes: "length (snmp_bytes community r) = 34 + length community"
  by (simp add: snmp_bytes_def length_snmp_inner)

lemma length_snmp_buf:
  "length (snmp_buf channelNumber community r) = length channelNumber + 36 + length community"
  by (simp add: snmp_buf_def length_snmp_bytes length_PutUint16)

lemma Split_not_Nil: "Split s sep \<noteq> []"
  by (induction s) (auto split: list.splits)

lemma length_domain_labels_Split: "length (domain_labels (Split s sep)) = Suc (length s)"
proof (induction s)
  case Nil
  show ?case by (simp add: bytes_of_def)
next
  case (Cons c cs)
  show ?case
  proof (cases "c = sep")
    case True
    with Cons show ?thesis by (simp add: bytes_of_def)
  next
    case False
    obtain p ps where ps: "Split cs sep = p # ps"
      using Split_not_Nil [of cs sep] by (cases "Split cs sep") auto
    with Cons False show ?thesis by (simp add: bytes_of_def)
  qed
qed

lemma length_domainBuf: "length (domainBuf dnsName) = 6 + length dnsName"
  by (simp add: domainBuf_def length_domain_labels_Split length_PutUint16)

lemma length_dns_bytes: "length (dns_bytes dnsName r) = 18 + length dnsName"
  by (simp add: dns_bytes_def length_domainBuf length_PutUint16)

lemma length_dns_buf:
  "length (dns_buf channelNumber dnsName r) = length channelNumber + 20 + length dnsName"
  by (simp add: dns_buf_def length_dns_bytes length_PutUint16)

text \<open>The only buffer a probe writes is the frame built from its payload.\<close>

lemma snmpScan_writes:
  "Call_ConnectionWrite buf \<in> set (snd (snmpScan opts net ip port community))
     \<Longrightarrow> buf = snmp_buf (RandomChannelNumber net) community (rand_Uint32 net)"
  by (auto simp: snmpScan_def Let_def split: sum.splits prod.splits if_splits option.splits)

lemma dnsScan_writes:
  "Call_ConnectionWrite buf \<in> set (snd (dnsScan opts net ip port dnsName))
     \<Longrightarrow> buf = dns_buf (RandomChannelNumber net) dnsName (rand_Uint32 net)"
  by (auto simp: dnsScan_def Let_def split: sum.splits prod.splits if_splits option.splits)

section \<open>C3: the ChannelData frames of the scanner\<close>

text \<open>
  C3, as stated: every frame the scanner writes has a total length that is a multiple
  of 4. It fails: with the two-byte channel number \<open>40 00\<close> and the community string
  \<open>private\<close> the SNMP probe writes 45 bytes, and for the domain name \<open>a.b\<close> the DNS
  probe writes 25 bytes.
\<close>

theorem C3_counterexample:
  "Call_ConnectionWrite (snmp_buf [0x40, 0x00] ''private'' 0xDEADBEEF)
     \<in> set (snd (snmpScan demo_opts silent_session [10, 0, 0, 1] 161 ''private''))
   \<and> length (snmp_buf [0x40, 0x00] ''private'' 0xDEADBEEF) = 45
   \<and> \<not> 4 dvd length (snmp_buf [0x40, 0x00] ''private'' 0xDEADBEEF)
   \<and> Call_ConnectionWrite (dns_buf [0x40, 0x00] ''a.b'' 0xDEADBEEF)
     \<in> set (snd (dnsScan demo_opts silent_session [10, 0, 0, 1] 53 ''a.b''))
   \<and> length (dns_buf [0x40, 0x00] ''a.b'' 0xDEADBEEF) = 25
   \<and> \<not> 4 dvd length (dns_buf [0x40, 0x00] ''a.b'' 0xDEADBEEF)"
  by (simp add: snmpScan_def dnsScan_def silent_session_def answering_session_def
      success_response_def demo_opts_def length_snmp_buf length_dns_buf)

text \<open>
  C3, amended: a frame the scanner writes is the channel number, the length of the
  payload as a big-endian \<open>u16\<close> and the payload, with no padding. Its total length is
  the length of the channel number plus 36 plus the length of the community string for
  the SNMP probe, and the length of the channel number plus 20 plus the length of the
  domain name for the DNS probe.
\<close>

theorem C3_frames_unpadded:
  "(Call_ConnectionWrite buf \<in> set (snd (snmpScan opts net ip port community)) \<longrightarrow>
      buf = RandomChannelNumber net
            @ PutUint16 (of_nat (length (snmp_bytes community (rand_Uint32 net))))
            @ snmp_bytes community (rand_Uint32 net)
      \<and> length buf = length (RandomChannelNumber net) + 36 + length community)
   \<and> (Call_ConnectionWrite buf \<in> set (snd (dnsScan opts net ip port dnsName)) \<longrightarrow>
      buf = RandomChannelNumber net
            @ PutUint16 (of_nat (length (dns_bytes dnsName (rand_Uint32 net))))
            @ dns_bytes dnsName (rand_Uint32 net)
      \<and> length buf = length (RandomChannelNumber net) + 20 + length dnsName)"
proof (intro conjI impI)
  assume "Call_ConnectionWrite buf \<in> set (snd (snmpScan opts net ip port community))"
  then have b: "buf = snmp_buf (RandomChannelNumber net) community (rand_Uint32 net)"
    by (rule snmpScan_writes)
  show "buf = RandomChannelNumber net
            @ PutUint16 (of_nat (length (snmp_bytes community (rand_Uint32 net))))
            @ snmp_bytes community (rand_Uint32 net)"
    using b by (simp add: snmp_buf_def)
  show "length buf = length (RandomChannelNumber net) + 36 + length community"
    using b by (simp add: length_snmp_buf)
next
  assume "Call_ConnectionWrite buf \<in> set (snd (dnsScan opts net ip port dnsName))"
  then have b: "buf = dns_buf (RandomChannelNumber net) dnsName (rand_Uint32 net)"
    by (rule dnsScan_writes)
  show "buf = RandomChannelNumber net
            @ PutUint16 (of_nat (length (dns_bytes dnsName (rand_Uint32 net))))
            @ dns_bytes dnsName (rand_Uint32 net)"
    using b by (simp add: dns_buf_def)
  show "length buf = length (RandomChannelNumber net) + 20 + length dnsName"
    using b by (simp add: length_dns_buf)
qed

theorem C3_frames_unpadded_witness:
  "Call_ConnectionWrite (snmp_buf [0x40, 0x00] ''private'' 0xDEADBEEF)
     \<in> set (snd (snmpScan demo_opts silent_session [10, 0, 0, 1] 161 ''private''))
   \<and> length (snmp_buf [0x40, 0x00] ''private'' 0xDEADBEEF) = 2 + 36 + 7
   \<and> Call_ConnectionWrite (dns_buf [0x40, 0x00] ''a.b'' 0xDEADBEEF)
     \<in> set (snd (dnsScan demo_opts silent_session [10, 0, 0, 1] 53 ''a.b''))
   \<and> length (dns_buf [0x40, 0x00] ''a.b'' 0xDEADBEEF) = 2 + 20 + 3"
proof -
  have s: "Call_ConnectionWrite (snmp_buf [0x40, 0x00] ''private'' 0xDEADBEEF)
     \<in> set (snd (snmpScan demo_opts silent_session [10, 0, 0, 1] 161 ''private''))"
    by (simp add: snmpScan_def silent_session_def answering_session_def
        success_response_def demo_opts_def)
  have d: "Call_ConnectionWrite (dns_buf [0x40, 0x00] ''a.b'' 0xDEADBEEF)
     \<in> set (snd (dnsScan demo_opts silent_session [10, 0, 0, 1] 53 ''a.b''))"
    by (simp add: dnsScan_def silent_session_def answering_session_def
        success_response_def demo_opts_def)
  have rc: "RandomChannelNumber silent_session = [0x40, 0x00]"
    by (simp add: silent_session_def answering_session_def)
  have ls: "length (snmp_buf [0x40, 0x00] ''private'' 0xDEADBEEF)
      = length (RandomChannelNumber silent_session) + 36 + length ''private''"
    using C3_frames_unpadded [THEN conjunct1, THEN mp, OF s] by (rule conjunct2)
  have ld: "length (dns_buf [0x40, 0x00] ''a.b'' 0xDEADBEEF)
      = length (RandomChannelNumber silent_session) + 20 + length ''a.b''"
    using C3_frames_unpadded [THEN conjunct2, THEN mp, OF d] by (rule conjunct2)
  from ls ld rc have
    "length (snmp_buf [0x40, 0x00] ''private'' 0xDEADBEEF) = 2 + 36 + 7"
    "length (dns_buf [0x40, 0x00] ''a.b'' 0xDEADBEEF) = 2 + 20 + 3"
    by simp_all
  with s d show ?thesis by blast
qed

section \<open>What a probe writes\<close>

lemma reaches_writeE:
  assumes "reaches_write opts net ip port"
  obtains realm nonce req resp where
    "SetupTurnConnection net = Inr (realm, nonce)"
    "ChannelBindRequest net (Username opts) (Password opts) nonce realm ip port
       (RandomChannelNumber net) = Inr req"
    "SendAndReceive net req = Inr resp"
    "Class resp \<noteq> MsgTypeClassError"
proof (cases "SetupTurnConnection net")
  case (Inl err)
  with assms show ?thesis by (simp add: reaches_write_def)
next
  case (Inr rn)
  obtain realm nonce where rn: "rn = (realm, nonce)" by (cases rn)
  note s = Inr [unfolded rn]
  show ?thesis
  proof (cases "ChannelBindRequest net (Username opts) (Password opts) nonce realm ip port
                  (RandomChannelNumber net)")
    case (Inl err)
    with assms s show ?thesis by (simp add: reaches_write_def)
  next
    case req: (Inr req)
    show ?thesis
    proof (cases "SendAndReceive net req")
      case (Inl err)
      with assms s req show ?thesis by (simp add: reaches_write_def)
    next
      case resp: (Inr resp)
      from assms s req resp have "Class resp \<noteq> MsgTypeClassError"
        by (simp add: reaches_write_def)
      with s req resp show ?thesis by (rule that)
    qed
  qed
qed

text \<open>A probe that gets as far as \<open>ConnectionWrite\<close> writes the frame around its payload.\<close>

lemma snmpScan_reaches_write:
  assumes "reaches_write opts net ip port"
  shows "Call_ConnectionWrite (snmp_buf (RandomChannelNumber net) community (rand_Uint32 net))
           \<in> set (snd (snmpScan opts net ip port community))"
proof -
  from assms obtain realm nonce req resp where
    "SetupTurnConnection net = Inr (realm, nonce)"
    "ChannelBindRequest net (Username opts) (Password opts) nonce realm ip port
       (RandomChannelNumber net) = Inr req"
    "SendAndReceive net req = Inr resp"
    "Class resp \<noteq> MsgTypeClassError"
    by (rule reaches_writeE)
  then show ?thesis
    by (simp add: snmpScan_def Let_def split: sum.splits prod.splits option.splits)
qed

lemma dnsScan_reaches_write:
  assumes "reaches_write opts net ip port"
  shows "Call_ConnectionWrite (dns_buf (RandomChannelNumber net) dnsName (rand_Uint32 net))
           \<in> set (snd (dnsScan opts net ip port dnsName))"
proof -
  from assms obtain realm nonce req resp where
    "SetupTurnConnection net = Inr (realm, nonce)"
    "ChannelBindRequest net (Username opts) (Password opts) nonce realm ip port
       (RandomChannelNumber net) = Inr req"
    "SendAndReceive net req = Inr resp"
    "Class resp \<noteq> MsgTypeClassError"
    by (rule reaches_writeE)
  then show ?thesis
    by (simp add: dnsScan_def Let_def split: sum.splits prod.splits option.splits)
qed

lemma reaches_write_silent_session: "reaches_write opts silent_session ip port"
  by (simp add: reaches_write_def silent_session_def answering_session_def success_response_def)

lemma snmp_buf_public:
  "snmp_buf channelNumber ''public'' 0xDEADBEEF =
     channelNumber @ [0x00, 0x28]
     @ [0x30, 0x26,
        0x02, 0x01, 0x01, 0x04, 0x06, 0x70, 0x75, 0x62, 0x6c, 0x69, 0x63, 0xa1, 0x19, 0x02, 0x04,
        0xDE, 0xAD, 0xBE, 0xEF, 0x02, 0x01, 0x00, 0x02, 0x01, 0x00, 0x30, 0x0b, 0x30, 0x09,
        0x06, 0x05, 0x2b, 0x06, 0x01, 0x02, 0x01, 0x05, 0x00]"
  by (simp add: snmp_buf_def length_snmp_bytes)
     (simp add: snmp_bytes_def snmp_inner_def bytes_of_def PutUint32_def PutUint16_def)

lemma dns_buf_a_b:
  "dns_buf channelNumber ''a.b'' r =
     channelNumber @ [0x00, 0x15]
     @ PutUint16 (ucast r)
     @ [0x01, 0x00, 0x00, 0x01, 0x00, 0x00, 0x00, 0x00, 0x00, 0x00,
        0x01, 0x61, 0x01, 0x62, 0x00, 0x00, 0x01, 0x00, 0x01]"
  by (simp add: dns_buf_def length_dns_bytes)
     (simp add: dns_bytes_def domainBuf_def bytes_of_def PutUint16_def)

section \<open>C4: the SNMP probe for the community string \<open>public\<close>\<close>

text \<open>
  C4: let the community string be \<open>public\<close> and the random request id \<open>0xDEADBEEF\<close>.
  A call of \<open>snmpScan\<close> that gets as far as \<open>ConnectionWrite\<close> hands it the channel
  number, the two bytes \<open>00 28\<close> and the payload \<open>30 26\<close> followed by the 38 bytes of
  the specification; no call of \<open>snmpScan\<close> writes any other buffer; and \<open>00 28\<close> is
  the length of that payload, 40, as a big-endian \<open>u16\<close>.
\<close>

theorem C4_snmp_probe_public:
  "rand_Uint32 net = 0xDEADBEEF \<longrightarrow>
     (reaches_write opts net ip port \<longrightarrow>
        Call_ConnectionWrite
          (RandomChannelNumber net @ [0x00, 0x28]
           @ [0x30, 0x26,
              0x02, 0x01, 0x01, 0x04, 0x06, 0x70, 0x75, 0x62, 0x6c, 0x69, 0x63, 0xa1, 0x19,
              0x02, 0x04, 0xDE, 0xAD, 0xBE, 0xEF, 0x02, 0x01, 0x00, 0x02, 0x01, 0x00, 0x30,
              0x0b, 0x30, 0x09, 0x06, 0x05, 0x2b, 0x06, 0x01, 0x02, 0x01, 0x05, 0x00])
          \<in> set (snd (snmpScan opts net ip port ''public'')))
     \<and> (\<forall>buf. Call_ConnectionWrite buf \<in> set (snd (snmpScan opts net ip port ''public'')) \<longrightarrow>
          buf = RandomChannelNumber net @ [0x00, 0x28]
                @ [0x30, 0x26,
                   0x02, 0x01, 0x01, 0x04, 0x06, 0x70, 0x75, 0x62, 0x6c, 0x69, 0x63, 0xa1, 0x19,
                   0x02, 0x04, 0xDE, 0xAD, 0xBE, 0xEF, 0x02, 0x01, 0x00, 0x02, 0x01, 0x00, 0x30,
                   0x0b, 0x30, 0x09, 0x06, 0x05, 0x2b, 0x06, 0x01, 0x02, 0x01, 0x05, 0x00])
     \<and> [0x00, 0x28] =
         PutUint16 (of_nat (length
           [0x30, 0x26 :: byte,
            0x02, 0x01, 0x01, 0x04, 0x06, 0x70, 0x75, 0x62, 0x6c, 0x69, 0x63, 0xa1, 0x19,
            0x02, 0x04, 0xDE, 0xAD, 0xBE, 0xEF, 0x02, 0x01, 0x00, 0x02, 0x01, 0x00, 0x30,
            0x0b, 0x30, 0x09, 0x06, 0x05, 0x2b, 0x06, 0x01, 0x02, 0x01, 0x05, 0x00]))"
proof (intro conjI impI allI)
  assume r: "rand_Uint32 net = 0xDEADBEEF"
  assume "reaches_write opts net ip port"
  then have "Call_ConnectionWrite (snmp_buf (RandomChannelNumber net) ''public'' (rand_Uint32 net))
      \<in> set (snd (snmpScan opts net ip port ''public''))"
    by (rule snmpScan_reaches_write)
  then show "Call_ConnectionWrite
          (RandomChannelNumber net @ [0x00, 0x28]
           @ [0x30, 0x26,
              0x02, 0x01, 0x01, 0x04, 0x06, 0x70, 0x75, 0x62, 0x6c, 0x69, 0x63, 0xa1, 0x19,
              0x02, 0x04, 0xDE, 0xAD, 0xBE, 0xEF, 0x02, 0x01, 0x00, 0x02, 0x01, 0x00, 0x30,
              0x0b, 0x30, 0x09, 0x06, 0x05, 0x2b, 0x06, 0x01, 0x02, 0x01, 0x05, 0x00])
          \<in> set (snd (snmpScan opts net ip port ''public''))"
    by (simp only: r snmp_buf_public)
next
  fix buf
  assume r: "rand_Uint32 net = 0xDEADBEEF"
  assume "Call_ConnectionWrite buf \<in> set (snd (snmpScan opts net ip port ''public''))"
  then have "buf = snmp_buf (RandomChannelNumber net) ''public'' (rand_Uint32 net)"
    by (rule snmpScan_writes)
  then show "buf = RandomChannelNumber net @ [0x00, 0x28]
                @ [0x30, 0x26,
                   0x02, 0x01, 0x01, 0x04, 0x06, 0x70, 0x75, 0x62, 0x6c, 0x69, 0x63, 0xa1, 0x19,
                   0x02, 0x04, 0xDE, 0xAD, 0xBE, 0xEF, 0x02, 0x01, 0x00, 0x02, 0x01, 0x00, 0x30,
                   0x0b, 0x30, 0x09, 0x06, 0x05, 0x2b, 0x06, 0x01, 0x02, 0x01, 0x05, 0x00]"
    by (simp only: r snmp_buf_public)
next
  show "[0x00, 0x28] =
         PutUint16 (of_nat (length
           [0x30, 0x26 :: byte,
            0x02, 0x01, 0x01, 0x04, 0x06, 0x70, 0x75, 0x62, 0x6c, 0x69, 0x63, 0xa1, 0x19,
            0x02, 0x04, 0xDE, 0xAD, 0xBE, 0xEF, 0x02, 0x01, 0x00, 0x02, 0x01, 0x00, 0x30,
            0x0b, 0x30, 0x09, 0x06, 0x05, 0x2b, 0x06, 0x01, 0x02, 0x01, 0x05, 0x00]))"
    by (simp add: PutUint16_def)
qed

theorem C4_snmp_probe_public_witness:
  "rand_Uint32 silent_session = 0xDEADBEEF
   \<and> reaches_write demo_opts silent_session [10, 0, 0, 1] 161
   \<and> Call_ConnectionWrite
       ([0x40, 0x00, 0x00, 0x28, 0x30, 0x26,
         0x02, 0x01, 0x01, 0x04, 0x06, 0x70, 0x75, 0x62, 0x6c, 0x69, 0x63, 0xa1, 0x19,
         0x02, 0x04, 0xDE, 0xAD, 0xBE, 0xEF, 0x02, 0x01, 0x00, 0x02, 0x01, 0x00, 0x30,
         0x0b, 0x30, 0x09, 0x06, 0x05, 0x2b, 0x06, 0x01, 0x02, 0x01, 0x05, 0x00])
       \<in> set (snd (snmpScan demo_opts silent_session [10, 0, 0, 1] 161 ''public''))"
proof -
  have r: "rand_Uint32 silent_session = 0xDEADBEEF"
    by (simp add: silent_session_def answering_session_def)
  have w: "reaches_write demo_opts silent_session [10, 0, 0, 1] 161"
    by (rule reaches_write_silent_session)
  have c: "RandomChannelNumber silent_session = [0x40, 0x00]"
    by (simp add: silent_session_def answering_session_def)
  from C4_snmp_probe_public [of silent_session demo_opts "[10, 0, 0, 1]" 161,
      THEN mp, OF r, THEN conjunct1, THEN mp, OF w]
  have "Call_ConnectionWrite
       ([0x40, 0x00, 0x00, 0x28, 0x30, 0x26,
         0x02, 0x01, 0x01, 0x04, 0x06, 0x70, 0x75, 0x62, 0x6c, 0x69, 0x63, 0xa1, 0x19,
         0x02, 0x04, 0xDE, 0xAD, 0xBE, 0xEF, 0x02, 0x01, 0x00, 0x02, 0x01, 0x00, 0x30,
         0x0b, 0x30, 0x09, 0x06, 0x05, 0x2b, 0x06, 0x01, 0x02, 0x01, 0x05, 0x00])
       \<in> set (snd (snmpScan demo_opts silent_session [10, 0, 0, 1] 161 ''public''))"
    by (simp add: c)
  with r w show ?thesis by blast
qed

section \<open>C5: the DNS probe for the name \<open>a.b\<close>\<close>

text \<open>
  C5: let the domain name be \<open>a.b\<close>. A call of \<open>dnsScan\<close> that gets as far as
  \<open>ConnectionWrite\<close> hands it the channel number, the two bytes \<open>00 15\<close> (the payload
  length 21) and the payload: the two bytes of the transaction id (the low 16 bits of the
  random number, big-endian) followed by exactly the 19 bytes of the specification. No
  call of \<open>dnsScan\<close> writes any other buffer.
\<close>

theorem C5_dns_probe_a_b:
  "(reaches_write opts net ip port \<longrightarrow>
      Call_ConnectionWrite
        (RandomChannelNumber net @ [0x00, 0x15]
         @ PutUint16 (ucast (rand_Uint32 net))
         @ [0x01, 0x00, 0x00, 0x01, 0x00, 0x00, 0x00, 0x00, 0x00, 0x00,
            0x01, 0x61, 0x01, 0x62, 0x00, 0x00, 0x01, 0x00, 0x01])
        \<in> set (snd (dnsScan opts net ip port ''a.b'')))
   \<and> (\<forall>buf. Call_ConnectionWrite buf \<in> set (snd (dnsScan opts net ip port ''a.b'')) \<longrightarrow>
        buf = RandomChannelNumber net @ [0x00, 0x15]
              @ PutUint16 (ucast (rand_Uint32 net))
              @ [0x01, 0x00, 0x00, 0x01, 0x00, 0x00, 0x00, 0x00, 0x00, 0x00,
                 0x01, 0x61, 0x01, 0x62, 0x00, 0x00, 0x01, 0x00, 0x01])
   \<and> length (PutUint16 (ucast (rand_Uint32 net))) = 2"
proof (intro conjI impI allI)
  assume "reaches_write opts net ip port"
  then have "Call_ConnectionWrite (dns_buf (RandomChannelNumber net) ''a.b'' (rand_Uint32 net))
      \<in> set (snd (dnsScan opts net ip port ''a.b''))"
    by (rule dnsScan_reaches_write)
  then show "Call_ConnectionWrite
        (RandomChannelNumber net @ [0x00, 0x15]
         @ PutUint16 (ucast (rand_Uint32 net))
         @ [0x01, 0x00, 0x00, 0x01, 0x00, 0x00, 0x00, 0x00, 0x00, 0x00,
            0x01, 0x61, 0x01, 0x62, 0x00, 0x00, 0x01, 0x00, 0x01])
        \<in> set (snd (dnsScan opts net ip port ''a.b''))"
    by (simp only: dns_buf_a_b)
next
  fix buf
  assume "Call_ConnectionWrite buf \<in> set (snd (dnsScan opts net ip port ''a.b''))"
  then have "buf = dns_buf (RandomChannelNumber net) ''a.b'' (rand_Uint32 net)"
    by (rule dnsScan_writes)
  then show "buf = RandomChannelNumber net @ [0x00, 0x15]
              @ PutUint16 (ucast (rand_Uint32 net))
              @ [0x01, 0x00, 0x00, 0x01, 0x00, 0x00, 0x00, 0x00, 0x00, 0x00,
                 0x01, 0x61, 0x01, 0x62, 0x00, 0x00, 0x01, 0x00, 0x01]"
    by (simp only: dns_buf_a_b)
next
  show "length (PutUint16 (ucast (rand_Uint32 net))) = 2"
    by (rule length_PutUint16)
qed

theorem C5_dns_probe_a_b_witness:
  "reaches_write demo_opts silent_session [10, 0, 0, 1] 53
   \<and> Call_ConnectionWrite
       ([0x40, 0x00, 0x00, 0x15, 0xBE, 0xEF,
         0x01, 0x00, 0x00, 0x01, 0x00, 0x00, 0x00, 0x00, 0x00, 0x00,
         0x01, 0x61, 0x01, 0x62, 0x00, 0x00, 0x01, 0x00, 0x01])
       \<in> set (snd (dnsScan demo_opts silent_session [10, 0, 0, 1] 53 ''a.b''))"
proof -
  have w: "reaches_write demo_opts silent_session [10, 0, 0, 1] 53"
    by (rule reaches_write_silent_session)
  have c: "RandomChannelNumber silent_session = [0x40, 0x00]"
    by (simp add: silent_session_def answering_session_def)
  have t: "PutUint16 (ucast (rand_Uint32 silent_session)) = [0xBE, 0xEF]"
    by (simp add: silent_session_def answering_session_def PutUint16_def)
  from C5_dns_probe_a_b [of demo_opts silent_session "[10, 0, 0, 1]" 53,
      THEN conjunct1, THEN mp, OF w]
  have "Call_ConnectionWrite
       ([0x40, 0x00, 0x00, 0x15, 0xBE, 0xEF,
         0x01, 0x00, 0x00, 0x01, 0x00, 0x00, 0x00, 0x00, 0x00, 0x00,
         0x01, 0x61, 0x01, 0x62, 0x00, 0x00, 0x01, 0x00, 0x01])
       \<in> set (snd (dnsScan demo_opts silent_session [10, 0, 0, 1] 53 ''a.b''))"
    by (simp add: c t)
  with w show ?thesis by blast
qed

section \<open>Bytes read back as a string\<close>

lemma char_of_unat_of_char: "char_of (unat (of_char c :: 8 word)) = c"
proof -
  have "(of_char c :: 8 word) = of_nat (of_char c)"
    by (simp only: of_nat_of_char)
  then have "unat (of_char c :: 8 word) = of_char c mod 256"
    by (simp add: unat_of_nat)
  moreover have "(of_char c :: nat) < 256" by (rule nat_of_char_less_256)
  ultimately have "unat (of_char c :: 8 word) = of_char c" by simp
  then show ?thesis by simp
qed

lemma string_of_bytes_of: "string_of (bytes_of s) = s"
  by (simp add: string_of_def bytes_of_def comp_def char_of_unat_of_char)

section \<open>C1: the refresh task\<close>

text \<open>
  C1 asks for a Refresh at every tick of the two-minute ticker for as long as the
  session lasts. \<open>Refresh\<close> has a single \<open>select\<close> and no loop around it: with two
  ticks arriving and a server that accepts every Refresh, it sends one request at the
  first tick and returns, leaving the second tick unread.
\<close>

theorem C1_refresh_single_shot:
  "Refresh demo_handler accepting_control [tick_C, tick_C] =
     \<lparr>sent = [RefreshRequest ''u'' ''pw'' [] []],
      logged = [SLog_Debug ''[socks] refreshing connection''],
      unread = [tick_C],
      returned = True\<rparr>"
  by (simp add: Refresh_def demo_handler_def accepting_control_def success_response_def)

section \<open>C2: one retry after an error response\<close>

lemma Refresh_sent_le_2: "length (sent (Refresh s control arrivals)) \<le> 2"
  by (simp add: Refresh_def Let_def split: list.splits select_case.splits sum.splits)

text \<open>
  C2: a call of \<open>Refresh\<close> never sends more than two requests. When the answer to the
  first request is of the error class, the request is sent once more, with the nonce and
  the realm of that answer. When the answer to the second request is of the error class
  again, its error string is logged as an error and the call returns; when the answer
  to the first request is not of the error class, nothing is sent again.
\<close>

theorem C2_refresh_retry_once:
  "length (sent (Refresh s control arrivals)) \<le> 2
   \<and> (control 0 (RefreshRequest (TURNUsername s) (TURNPassword s) [] []) = Inr response
        \<and> Class response = MsgTypeClassError \<longrightarrow>
       sent (Refresh s control (tick_C # rest)) =
         [RefreshRequest (TURNUsername s) (TURNPassword s) [] [],
          RefreshRequest (TURNUsername s) (TURNPassword s)
            (string_of (GetAttribute response AttrNonce))
            (string_of (GetAttribute response AttrRealm))]
       \<and> (control 1 (RefreshRequest (TURNUsername s) (TURNPassword s)
                       (string_of (GetAttribute response AttrNonce))
                       (string_of (GetAttribute response AttrRealm))) = Inr response'
            \<and> Class response' = MsgTypeClassError \<longrightarrow>
           logged (Refresh s control (tick_C # rest)) =
             [SLog_Debug ''[socks] refreshing connection'',
              SLog_Error_string (ErrorString response')]
           \<and> returned (Refresh s control (tick_C # rest))
           \<and> unread (Refresh s control (tick_C # rest)) = rest))
   \<and> (control 0 (RefreshRequest (TURNUsername s) (TURNPassword s) [] []) = Inr response
        \<and> Class response \<noteq> MsgTypeClassError \<longrightarrow>
       sent (Refresh s control (tick_C # rest)) =
         [RefreshRequest (TURNUsername s) (TURNPassword s) [] []])"
proof (intro conjI impI)
  show "length (sent (Refresh s control arrivals)) \<le> 2"
    by (rule Refresh_sent_le_2)
next
  assume a: "control 0 (RefreshRequest (TURNUsername s) (TURNPassword s) [] []) = Inr response
    \<and> Class response = MsgTypeClassError"
  then show "sent (Refresh s control (tick_C # rest)) =
         [RefreshRequest (TURNUsername s) (TURNPassword s) [] [],
          RefreshRequest (TURNUsername s) (TURNPassword s)
            (string_of (GetAttribute response AttrNonce))
            (string_of (GetAttribute response AttrRealm))]"
    by (simp add: Refresh_def Let_def split: sum.splits)
  assume b: "control 1 (RefreshRequest (TURNUsername s) (TURNPassword s)
                       (string_of (GetAttribute response AttrNonce))
                       (string_of (GetAttribute response AttrRealm))) = Inr response'
            \<and> Class response' = MsgTypeClassError"
  from a b show "logged (Refresh s control (tick_C # rest)) =
             [SLog_Debug ''[socks] refreshing connection'',
              SLog_Error_string (ErrorString response')]"
    by (simp add: Refresh_def Let_def)
  from a b show "returned (Refresh s control (tick_C # rest))"
    by (simp add: Refresh_def Let_def)
  from a b show "unread (Refresh s control (tick_C # rest)) = rest"
    by (simp add: Refresh_def Let_def)
next
  assume "control 0 (RefreshRequest (TURNUsername s) (TURNPassword s) [] []) = Inr response
    \<and> Class response \<noteq> MsgTypeClassError"
  then show "sent (Refresh s control (tick_C # rest)) =
         [RefreshRequest (TURNUsername s) (TURNPassword s) [] []]"
    by (simp add: Refresh_def Let_def)
qed

theorem C2_refresh_retry_once_witness:
  "rejecting_control 0 (RefreshRequest ''u'' ''pw'' [] []) = Inr stale_response
   \<and> Class stale_response = MsgTypeClassError
   \<and> rejecting_control 1 (RefreshRequest ''u'' ''pw'' ''n2'' ''example.org'') = Inr stale_response
   \<and> sent (Refresh demo_handler rejecting_control [tick_C, tick_C]) =
       [RefreshRequest ''u'' ''pw'' [] [], RefreshRequest ''u'' ''pw'' ''n2'' ''example.org'']
   \<and> logged (Refresh demo_handler rejecting_control [tick_C, tick_C]) =
       [SLog_Debug ''[socks] refreshing connection'', SLog_Error_string ''438 Stale Nonce'']
   \<and> returned (Refresh demo_handler rejecting_control [tick_C, tick_C])"
proof -
  have u: "TURNUsername demo_handler = ''u''" "TURNPassword demo_handler = ''pw''"
    by (simp_all add: demo_handler_def)
  have n: "string_of (GetAttribute stale_response AttrNonce) = ''n2''"
    "string_of (GetAttribute stale_response AttrRealm) = ''example.org''"
    by (simp_all add: stale_response_def GetAttribute_def string_of_bytes_of)
  have c: "Class stale_response = MsgTypeClassError"
    "ErrorString stale_response = ''438 Stale Nonce''"
    by (simp_all add: stale_response_def)
  have r: "rejecting_control 0 (RefreshRequest ''u'' ''pw'' [] []) = Inr stale_response"
    "rejecting_control 1 (RefreshRequest ''u'' ''pw'' ''n2'' ''example.org'') = Inr stale_response"
    by (simp_all add: rejecting_control_def)
  from C2_refresh_retry_once [of demo_handler rejecting_control "[]" stale_response "[tick_C]"
      stale_response] u n c r
  show ?thesis by simp
qed

section \<open>C7: dropping targets that are not private\<close>

text \<open>
  C7: when \<open>DropNonPrivateRequests\<close> is set and the target found by the \<open>switch\<close> is
  not a private address, \<open>PreHandler\<close> returns a \<open>socks.Error\<close> with the reason
  \<open>HostUnreachable\<close>, leaves the handler as it was, and its only event is the debug
  line: \<open>SetupTurnTCPConnection\<close> is not called.
\<close>

theorem C7_drop_non_private:
  assumes "switch_target env request = Inr target"
    and "DropNonPrivateRequests s"
    and "\<not> IsPrivateIP env target"
  shows "PreHandler env s request =
           (Inl \<lparr>Reason = RequestReplyHostUnreachable,
                 Err = Errorf ''dropping non private connection''\<rparr>,
            s, [SLog_Debugf_dropping target (DestinationPort request)])
         \<and> (\<forall>t p. Call_SetupTurnTCPConnection t p \<notin> set (snd (snd (PreHandler env s request))))"
  using assms by (simp add: PreHandler_def connect_target_def)

theorem C7_drop_non_private_witness:
  "switch_target demo_socks_env demo_request = Inr [93, 184, 216, 34]
   \<and> DropNonPrivateRequests demo_handler
   \<and> \<not> IsPrivateIP demo_socks_env [93, 184, 216, 34]
   \<and> PreHandler demo_socks_env demo_handler demo_request =
       (Inl \<lparr>Reason = RequestReplyHostUnreachable,
             Err = Errorf ''dropping non private connection''\<rparr>,
        demo_handler, [SLog_Debugf_dropping [93, 184, 216, 34] 80])"
proof -
  have a: "switch_target demo_socks_env demo_request = Inr [93, 184, 216, 34]"
    by (simp add: switch_target_def demo_socks_env_def demo_request_def)
  have b: "DropNonPrivateRequests demo_handler"
    by (simp add: demo_handler_def)
  have c: "\<not> IsPrivateIP demo_socks_env [93, 184, 216, 34]"
    by (simp add: demo_socks_env_def)
  have d: "DestinationPort demo_request = 80"
    by (simp add: demo_request_def)
  from C7_drop_non_private [OF a b c] a b c d show ?thesis by simp
qed

section \<open>C9: the credentials of a Refresh request\<close>

text \<open>
  C9, as stated: the first Refresh request of a cycle carries the current realm and
  nonce. It fails: against a server whose current realm and nonce are \<open>example.org\<close>
  and \<open>n2\<close>, the first request carries the empty realm and the empty nonce; only the
  second request carries the two.
\<close>

theorem C9_counterexample:
  "sent (Refresh demo_handler nonce_control [tick_C]) =
     [RefreshRequest ''u'' ''pw'' [] [], RefreshRequest ''u'' ''pw'' ''n2'' ''example.org'']
   \<and> hd (sent (Refresh demo_handler nonce_control [tick_C]))
       \<noteq> RefreshRequest ''u'' ''pw'' ''n2'' ''example.org''"
  by (simp add: Refresh_def demo_handler_def stale_response_def success_response_def
      GetAttribute_def string_of_bytes_of)

text \<open>
  C9, amended: the handler keeps no nonce state. The first Refresh request of a cycle
  carries the handler's user name and password with an empty nonce and an empty realm;
  every further request of the cycle follows an error-class answer to the first one and
  carries the nonce and the realm of that answer, the most recent the server supplied.
\<close>

theorem C9_refresh_credentials:
  "hd (sent (Refresh s control (tick_C # rest))) =
     RefreshRequest (TURNUsername s) (TURNPassword s) [] []
   \<and> sent (Refresh s control (tick_C # rest)) \<noteq> []
   \<and> (\<forall>r \<in> set (tl (sent (Refresh s control (tick_C # rest)))).
        \<exists>response.
          control 0 (RefreshRequest (TURNUsername s) (TURNPassword s) [] []) = Inr response
          \<and> Class response = MsgTypeClassError
          \<and> r = RefreshRequest (TURNUsername s) (TURNPassword s)
                 (string_of (GetAttribute response AttrNonce))
                 (string_of (GetAttribute response AttrRealm)))"
  by (simp add: Refresh_def Let_def split: sum.splits)

theorem C9_refresh_credentials_witness:
  "RefreshRequest ''u'' ''pw'' ''n2'' ''example.org''
     \<in> set (tl (sent (Refresh demo_handler nonce_control [tick_C])))
   \<and> (\<exists>response.
        nonce_control 0 (RefreshRequest ''u'' ''pw'' [] []) = Inr response
        \<and> Class response = MsgTypeClassError
        \<and> RefreshRequest ''u'' ''pw'' ''n2'' ''example.org'' =
            RefreshRequest ''u'' ''pw''
              (string_of (GetAttribute response AttrNonce))
              (string_of (GetAttribute response AttrRealm)))"
proof -
  have m: "RefreshRequest ''u'' ''pw'' ''n2'' ''example.org''
     \<in> set (tl (sent (Refresh demo_handler nonce_control [tick_C])))"
    by (simp add: Refresh_def demo_handler_def stale_response_def success_response_def
        GetAttribute_def string_of_bytes_of)
  have u: "TURNUsername demo_handler = ''u''" "TURNPassword demo_handler = ''pw''"
    by (simp_all add: demo_handler_def)
  have e: "\<exists>response.
        nonce_control 0 (RefreshRequest ''u'' ''pw'' [] []) = Inr response
        \<and> Class response = MsgTypeClassError
        \<and> RefreshRequest ''u'' ''pw'' ''n2'' ''example.org'' =
            RefreshRequest ''u'' ''pw''
              (string_of (GetAttribute response AttrNonce))
              (string_of (GetAttribute response AttrRealm))"
    using C9_refresh_credentials [of demo_handler nonce_control "[]", THEN conjunct2,
      THEN conjunct2, THEN bspec, OF m]
    unfolding u .
  from m e show ?thesis by (rule conjI)
qed

section \<open>The probes and the scan loop\<close>

text \<open>When a probe returns \<open>nil\<close>.\<close>

lemma reaches_readE:
  assumes "reaches_read opts net ip port buf"
  obtains realm nonce req resp where
    "SetupTurnConnection net = Inr (realm, nonce)"
    "ChannelBindRequest net (Username opts) (Password opts) nonce realm ip port
       (RandomChannelNumber net) = Inr req"
    "SendAndReceive net req = Inr resp"
    "Class resp \<noteq> MsgTypeClassError"
    "ConnectionWrite net buf = None"
proof (cases "SetupTurnConnection net")
  case (Inl err)
  with assms show ?thesis by (simp add: reaches_read_def)
next
  case (Inr rn)
  obtain realm nonce where rn: "rn = (realm, nonce)" by (cases rn)
  note s = Inr [unfolded rn]
  show ?thesis
  proof (cases "ChannelBindRequest net (Username opts) (Password opts) nonce realm ip port
                  (RandomChannelNumber net)")
    case (Inl err)
    with assms s show ?thesis by (simp add: reaches_read_def)
  next
    case req: (Inr req)
    show ?thesis
    proof (cases "SendAndReceive net req")
      case (Inl err)
      with assms s req show ?thesis by (simp add: reaches_read_def)
    next
      case resp: (Inr resp)
      from assms s req resp
      have "Class resp \<noteq> MsgTypeClassError" and "ConnectionWrite net buf = None"
        by (simp_all add: reaches_read_def)
      with s req resp show ?thesis by (rule that)
    qed
  qed
qed

lemma snmpScan_None_iff:
  "fst (snmpScan opts net ip port community) = None \<longleftrightarrow>
     setup_timed_out net
     \<or> reaches_read opts net ip port (snmp_buf (RandomChannelNumber net) community (rand_Uint32 net))
       \<and> (read_timed_out net \<or> response_extracted net)"
proof (cases "SetupTurnConnection net")
  case (Inl err)
  then show ?thesis
    by (simp add: snmpScan_def setup_timed_out_def reaches_read_def)
next
  case (Inr rn)
  obtain realm nonce where rn: "rn = (realm, nonce)" by (cases rn)
  note s = Inr [unfolded rn]
  show ?thesis
  proof (cases "ChannelBindRequest net (Username opts) (Password opts) nonce realm ip port
                  (RandomChannelNumber net)")
    case (Inl err)
    with s show ?thesis
      by (simp add: snmpScan_def setup_timed_out_def reaches_read_def)
  next
    case req: (Inr req)
    show ?thesis
    proof (cases "SendAndReceive net req")
      case (Inl err)
      with s req show ?thesis
        by (simp add: snmpScan_def setup_timed_out_def reaches_read_def)
    next
      case resp: (Inr resp)
      show ?thesis
      proof (cases "Class resp = MsgTypeClassError")
        case True
        with s req resp show ?thesis
          by (simp add: snmpScan_def setup_timed_out_def reaches_read_def)
      next
        case False
        show ?thesis
        proof (cases "ConnectionWrite net
                 (snmp_buf (RandomChannelNumber net) community (rand_Uint32 net))")
          case (Some err)
          with s req resp False show ?thesis
            by (simp add: snmpScan_def setup_timed_out_def reaches_read_def)
        next
          case None
          with s req resp False show ?thesis
            by (simp add: snmpScan_def setup_timed_out_def reaches_read_def read_timed_out_def
                response_extracted_def Let_def split: sum.splits prod.splits)
        qed
      qed
    qed
  qed
qed

lemma dnsScan_None_iff:
  "fst (dnsScan opts net ip port dnsName) = None \<longleftrightarrow>
     setup_timed_out net
     \<or> reaches_read opts net ip port (dns_buf (RandomChannelNumber net) dnsName (rand_Uint32 net))
       \<and> (read_timed_out net \<or> response_extracted net)"
proof (cases "SetupTurnConnection net")
  case (Inl err)
  then show ?thesis
    by (simp add: dnsScan_def setup_timed_out_def reaches_read_def)
next
  case (Inr rn)
  obtain realm nonce where rn: "rn = (realm, nonce)" by (cases rn)
  note s = Inr [unfolded rn]
  show ?thesis
  proof (cases "ChannelBindRequest net (Username opts) (Password opts) nonce realm ip port
                  (RandomChannelNumber net)")
    case (Inl err)
    with s show ?thesis
      by (simp add: dnsScan_def setup_timed_out_def reaches_read_def)
  next
    case req: (Inr req)
    show ?thesis
    proof (cases "SendAndReceive net req")
      case (Inl err)
      with s req show ?thesis
        by (simp add: dnsScan_def setup_timed_out_def reaches_read_def)
    next
      case resp: (Inr resp)
      show ?thesis
      proof (cases "Class resp = MsgTypeClassError")
        case True
        with s req resp show ?thesis
          by (simp add: dnsScan_def setup_timed_out_def reaches_read_def)
      next
        case False
        show ?thesis
        proof (cases "ConnectionWrite net
                 (dns_buf (RandomChannelNumber net) dnsName (rand_Uint32 net))")
          case (Some err)
          with s req resp False show ?thesis
            by (simp add: dnsScan_def setup_timed_out_def reaches_read_def)
        next
          case None
          with s req resp False show ?thesis
            by (simp add: dnsScan_def setup_timed_out_def reaches_read_def read_timed_out_def
                response_extracted_def Let_def split: sum.splits prod.splits)
        qed
      qed
    qed
  qed
qed

text \<open>A probe that ends in one of the two timeouts returns \<open>nil\<close> and logs nothing.\<close>

lemma snmpScan_setup_timeout:
  "setup_timed_out net \<Longrightarrow>
     snmpScan opts net ip port community = (None, [Call_SetupTurnConnection ip port])"
  by (auto simp: snmpScan_def setup_timed_out_def split: sum.splits)

lemma dnsScan_setup_timeout:
  "setup_timed_out net \<Longrightarrow>
     dnsScan opts net ip port dnsName = (None, [Call_SetupTurnConnection ip port])"
  by (auto simp: dnsScan_def setup_timed_out_def split: sum.splits)

lemma snmpScan_read_timeout:
  assumes "reaches_read opts net ip port
             (snmp_buf (RandomChannelNumber net) community (rand_Uint32 net))"
    and "read_timed_out net"
  shows "snmpScan opts net ip port community =
           (None, [Call_SetupTurnConnection ip port,
                   Call_ConnectionWrite
                     (snmp_buf (RandomChannelNumber net) community (rand_Uint32 net)),
                   Call_Close])"
proof -
  from assms(1) obtain realm nonce req resp where
    "SetupTurnConnection net = Inr (realm, nonce)"
    "ChannelBindRequest net (Username opts) (Password opts) nonce realm ip port
       (RandomChannelNumber net) = Inr req"
    "SendAndReceive net req = Inr resp"
    "Class resp \<noteq> MsgTypeClassError"
    "ConnectionWrite net (snmp_buf (RandomChannelNumber net) community (rand_Uint32 net)) = None"
    by (rule reaches_readE)
  with assms(2) show ?thesis
    by (auto simp: snmpScan_def read_timed_out_def Let_def split: sum.splits)
qed

lemma dnsScan_read_timeout:
  assumes "reaches_read opts net ip port
             (dns_buf (RandomChannelNumber net) dnsName (rand_Uint32 net))"
    and "read_timed_out net"
  shows "dnsScan opts net ip port dnsName =
           (None, [Call_SetupTurnConnection ip port,
                   Call_ConnectionWrite
                     (dns_buf (RandomChannelNumber net) dnsName (rand_Uint32 net)),
                   Call_Close])"
proof -
  from assms(1) obtain realm nonce req resp where
    "SetupTurnConnection net = Inr (realm, nonce)"
    "ChannelBindRequest net (Username opts) (Password opts) nonce realm ip port
       (RandomChannelNumber net) = Inr req"
    "SendAndReceive net req = Inr resp"
    "Class resp \<noteq> MsgTypeClassError"
    "ConnectionWrite net (dns_buf (RandomChannelNumber net) dnsName (rand_Uint32 net)) = None"
    by (rule reaches_readE)
  with assms(2) show ?thesis
    by (auto simp: dnsScan_def read_timed_out_def Let_def split: sum.splits)
qed

text \<open>Every probe starts with the setup of its session, and no probe logs an error itself.\<close>

lemma snmpScan_setup:
  "Call_SetupTurnConnection ip port \<in> set (snd (snmpScan opts net ip port community))"
  by (simp add: snmpScan_def Let_def split: sum.splits prod.splits option.splits)

lemma dnsScan_setup:
  "Call_SetupTurnConnection ip port \<in> set (snd (dnsScan opts net ip port dnsName))"
  by (simp add: dnsScan_def Let_def split: sum.splits prod.splits option.splits)

lemma snmpScan_no_Errorf:
  "Log_Errorf_SNMP a err \<notin> set (snd (snmpScan opts net ip port community))"
  "Log_Errorf_DNS a err \<notin> set (snd (snmpScan opts net ip port community))"
  by (simp_all add: snmpScan_def Let_def split: sum.splits prod.splits option.splits)

lemma dnsScan_no_Errorf:
  "Log_Errorf_SNMP a err \<notin> set (snd (dnsScan opts net ip port dnsName))"
  "Log_Errorf_DNS a err \<notin> set (snd (dnsScan opts net ip port dnsName))"
  by (simp_all add: dnsScan_def Let_def split: sum.splits prod.splits option.splits)

text \<open>The loop handles every item, whatever happened at the items before it.\<close>

lemma scan_loop_concat:
  "scan_loop opts net k items =
     concat (map (\<lambda>j. scan_item opts net (k + j) (items ! j)) [0..<length items])"
proof (induction items arbitrary: k)
  case Nil
  show ?case by simp
next
  case (Cons ip ipChan)
  have "[0..<length (ip # ipChan)] = 0 # map Suc [0..<length ipChan]"
    by (simp add: upt_conv_Cons map_Suc_upt del: upt_Suc)
  then show ?case
    by (simp add: Cons.IH comp_def del: upt_Suc)
qed

lemma scan_item_in_scan_loop:
  "j < length items \<Longrightarrow>
     set (scan_item opts net (k + j) (items ! j)) \<subseteq> set (scan_loop opts net k items)"
proof (induction items arbitrary: k j)
  case Nil
  then show ?case by simp
next
  case (Cons ip ipChan)
  show ?case
  proof (cases j)
    case 0
    then show ?thesis by simp
  next
    case (Suc i)
    with Cons.prems have "i < length ipChan" by simp
    from Cons.IH [OF this, of "Suc k"] Suc show ?thesis by auto
  qed
qed

lemma UDPScanner_fst: "fst (UDPScanner env opts) = Validate opts"
  by (simp add: UDPScanner_def Let_def split: option.splits)

lemma UDPScanner_valid:
  "Validate opts = None \<Longrightarrow>
     UDPScanner env opts = (None, scan_loop opts (sessions env) 0 (scan_items env opts))"
  by (simp add: UDPScanner_def scan_items_def Let_def)

lemma UDPScanner_invalid:
  "Validate opts \<noteq> None \<Longrightarrow> UDPScanner env opts = (Validate opts, [])"
  by (auto simp: UDPScanner_def)

lemma scan_item_in_UDPScanner:
  assumes "Validate opts = None" and "j < length (scan_items env opts)"
  shows "set (scan_item opts (sessions env) j (scan_items env opts ! j))
           \<subseteq> set (snd (UDPScanner env opts))"
  using scan_item_in_scan_loop [OF assms(2), of opts "sessions env" 0]
  by (simp add: UDPScanner_valid [OF assms(1)])

text \<open>The concrete probes.\<close>

lemma Validate_demo_opts: "Validate demo_opts = None"
  by (simp add: Validate_def demo_opts_def)

lemma snmpScan_refused:
  "snmpScan opts refused_session ip port community =
     (Some (Errorf ''connection refused''), [Call_SetupTurnConnection ip port])"
  by (simp add: snmpScan_def refused_session_def answering_session_def)

lemma dnsScan_refused:
  "dnsScan opts refused_session ip port dnsName =
     (Some (Errorf ''connection refused''), [Call_SetupTurnConnection ip port])"
  by (simp add: dnsScan_def refused_session_def answering_session_def)

lemma snmpScan_silent:
  "snmpScan opts silent_session ip port community =
     (None, [Call_SetupTurnConnection ip port,
             Call_ConnectionWrite (snmp_buf [0x40, 0x00] community 0xDEADBEEF), Call_Close])"
  by (simp add: snmpScan_def silent_session_def answering_session_def success_response_def)

lemma dnsScan_silent:
  "dnsScan opts silent_session ip port dnsName =
     (None, [Call_SetupTurnConnection ip port,
             Call_ConnectionWrite (dns_buf [0x40, 0x00] dnsName 0xDEADBEEF), Call_Close])"
  by (simp add: dnsScan_def silent_session_def answering_session_def success_response_def)

section \<open>C6: timeouts are silent, other probe errors are logged\<close>

text \<open>
  C6: a probe returns \<open>nil\<close> exactly when the setup of its session times out, or it
  gets as far as the read and the read times out or yields a response whose channel data
  can be extracted; a probe that ends in one of the two timeouts logs nothing. The scan
  loop handles every item the iterator delivers, whatever the probes of the items before
  it returned. For an item without an iteration error both probes are started, an error
  returned by a probe is logged with the address of the item, and a probe that returned
  \<open>nil\<close> leaves no error line.
\<close>

theorem C6_timeouts_silent_errors_logged:
  "(fst (snmpScan opts net ip port community) = None \<longleftrightarrow>
      setup_timed_out net
      \<or> reaches_read opts net ip port
           (snmp_buf (RandomChannelNumber net) community (rand_Uint32 net))
        \<and> (read_timed_out net \<or> response_extracted net))
   \<and> (fst (dnsScan opts net ip port dnsName) = None \<longleftrightarrow>
      setup_timed_out net
      \<or> reaches_read opts net ip port
           (dns_buf (RandomChannelNumber net) dnsName (rand_Uint32 net))
        \<and> (read_timed_out net \<or> response_extracted net))
   \<and> (setup_timed_out net
        \<or> reaches_read opts net ip port
             (snmp_buf (RandomChannelNumber net) community (rand_Uint32 net))
          \<and> read_timed_out net \<longrightarrow>
      filter is_log_event (snd (snmpScan opts net ip port community)) = [])
   \<and> (setup_timed_out net
        \<or> reaches_read opts net ip port
             (dns_buf (RandomChannelNumber net) dnsName (rand_Uint32 net))
          \<and> read_timed_out net \<longrightarrow>
      filter is_log_event (snd (dnsScan opts net ip port dnsName)) = [])
   \<and> (Validate opts = None \<longrightarrow>
      snd (UDPScanner env opts) =
        concat (map (\<lambda>j. scan_item opts (sessions env) j (scan_items env opts ! j))
                  [0..<length (scan_items env opts)]))
   \<and> (Error item = None \<longrightarrow>
      Call_SetupTurnConnection (IP item) 161 \<in> set (scan_item opts nets j item)
      \<and> Call_SetupTurnConnection (IP item) 53 \<in> set (scan_item opts nets j item)
      \<and> (\<forall>err. fst (snmpScan opts (nets j 161) (IP item) 161 (CommunityString opts)) = Some err
             \<longrightarrow> Log_Errorf_SNMP (IP item) err \<in> set (scan_item opts nets j item))
      \<and> (\<forall>err. fst (dnsScan opts (nets j 53) (IP item) 53 (DomainName opts)) = Some err
             \<longrightarrow> Log_Errorf_DNS (IP item) err \<in> set (scan_item opts nets j item))
      \<and> (fst (snmpScan opts (nets j 161) (IP item) 161 (CommunityString opts)) = None
             \<longrightarrow> (\<forall>a err. Log_Errorf_SNMP a err \<notin> set (scan_item opts nets j item)))
      \<and> (fst (dnsScan opts (nets j 53) (IP item) 53 (DomainName opts)) = None
             \<longrightarrow> (\<forall>a err. Log_Errorf_DNS a err \<notin> set (scan_item opts nets j item))))"
proof (intro conjI impI allI)
  show "fst (snmpScan opts net ip port community) = None \<longleftrightarrow>
      setup_timed_out net
      \<or> reaches_read opts net ip port
           (snmp_buf (RandomChannelNumber net) community (rand_Uint32 net))
        \<and> (read_timed_out net \<or> response_extracted net)"
    by (rule snmpScan_None_iff)
next
  show "fst (dnsScan opts net ip port dnsName) = None \<longleftrightarrow>
      setup_timed_out net
      \<or> reaches_read opts net ip port
           (dns_buf (RandomChannelNumber net) dnsName (rand_Uint32 net))
        \<and> (read_timed_out net \<or> response_extracted net)"
    by (rule dnsScan_None_iff)
next
  assume "setup_timed_out net
        \<or> reaches_read opts net ip port
             (snmp_buf (RandomChannelNumber net) community (rand_Uint32 net))
          \<and> read_timed_out net"
  then show "filter is_log_event (snd (snmpScan opts net ip port community)) = []"
  proof
    assume "setup_timed_out net"
    then show ?thesis by (simp add: snmpScan_setup_timeout)
  next
    assume "reaches_read opts net ip port
             (snmp_buf (RandomChannelNumber net) community (rand_Uint32 net))
          \<and> read_timed_out net"
    then show ?thesis by (simp add: snmpScan_read_timeout)
  qed
next
  assume "setup_timed_out net
        \<or> reaches_read opts net ip port
             (dns_buf (RandomChannelNumber net) dnsName (rand_Uint32 net))
          \<and> read_timed_out net"
  then show "filter is_log_event (snd (dnsScan opts net ip port dnsName)) = []"
  proof
    assume "setup_timed_out net"
    then show ?thesis by (simp add: dnsScan_setup_timeout)
  next
    assume "reaches_read opts net ip port
             (dns_buf (RandomChannelNumber net) dnsName (rand_Uint32 net))
          \<and> read_timed_out net"
    then show ?thesis by (simp add: dnsScan_read_timeout)
  qed
next
  assume "Validate opts = None"
  then show "snd (UDPScanner env opts) =
        concat (map (\<lambda>j. scan_item opts (sessions env) j (scan_items env opts ! j))
                  [0..<length (scan_items env opts)])"
    by (simp add: UDPScanner_valid scan_loop_concat)
next
  assume "Error item = None"
  then show "Call_SetupTurnConnection (IP item) 161 \<in> set (scan_item opts nets j item)"
    by (simp add: scan_item_def snmpScan_setup)
next
  assume "Error item = None"
  then show "Call_SetupTurnConnection (IP item) 53 \<in> set (scan_item opts nets j item)"
    by (simp add: scan_item_def dnsScan_setup)
next
  fix err
  assume "Error item = None"
    and "fst (snmpScan opts (nets j 161) (IP item) 161 (CommunityString opts)) = Some err"
  then show "Log_Errorf_SNMP (IP item) err \<in> set (scan_item opts nets j item)"
    by (simp add: scan_item_def)
next
  fix err
  assume "Error item = None"
    and "fst (dnsScan opts (nets j 53) (IP item) 53 (DomainName opts)) = Some err"
  then show "Log_Errorf_DNS (IP item) err \<in> set (scan_item opts nets j item)"
    by (simp add: scan_item_def)
next
  fix a err
  assume "Error item = None"
    and "fst (snmpScan opts (nets j 161) (IP item) 161 (CommunityString opts)) = None"
  then show "Log_Errorf_SNMP a err \<notin> set (scan_item opts nets j item)"
    by (simp add: scan_item_def snmpScan_no_Errorf dnsScan_no_Errorf split: option.splits)
next
  fix a err
  assume "Error item = None"
    and "fst (dnsScan opts (nets j 53) (IP item) 53 (DomainName opts)) = None"
  then show "Log_Errorf_DNS a err \<notin> set (scan_item opts nets j item)"
    by (simp add: scan_item_def snmpScan_no_Errorf dnsScan_no_Errorf split: option.splits)
qed

theorem C6_timeouts_silent_errors_logged_witness:
  "setup_timed_out unreachable_session
   \<and> filter is_log_event (snd (snmpScan demo_opts unreachable_session [10, 0, 0, 1] 161 ''private''))
       = []
   \<and> reaches_read demo_opts silent_session [10, 0, 0, 1] 53
       (dns_buf (RandomChannelNumber silent_session) ''a.b'' (rand_Uint32 silent_session))
   \<and> read_timed_out silent_session
   \<and> filter is_log_event (snd (dnsScan demo_opts silent_session [10, 0, 0, 1] 53 ''a.b'')) = []
   \<and> Validate demo_opts = None
   \<and> snd (UDPScanner demo_env demo_opts) =
       concat (map (\<lambda>j. scan_item demo_opts (sessions demo_env) j
                          (scan_items demo_env demo_opts ! j))
                 [0..<length (scan_items demo_env demo_opts)])
   \<and> Call_SetupTurnConnection [10, 0, 0, 1] 53
       \<in> set (scan_item demo_opts (sessions demo_env) 0 \<lparr>IP = [10, 0, 0, 1], Error = None\<rparr>)
   \<and> Log_Errorf_SNMP [10, 0, 0, 1] (Errorf ''connection refused'')
       \<in> set (scan_item demo_opts (sessions demo_env) 0 \<lparr>IP = [10, 0, 0, 1], Error = None\<rparr>)
   \<and> Log_Errorf_DNS [10, 0, 0, 1] ErrTimeout
       \<notin> set (scan_item demo_opts (sessions demo_env) 0 \<lparr>IP = [10, 0, 0, 1], Error = None\<rparr>)
   \<and> Log_Errorf_DNS [10, 0, 0, 1] (Errorf ''connection refused'')
       \<in> set (scan_item demo_opts (sessions refused_env) 0 \<lparr>IP = [10, 0, 0, 1], Error = None\<rparr>)
   \<and> Log_Errorf_SNMP [10, 0, 0, 1] ErrTimeout
       \<notin> set (scan_item demo_opts (sessions silent_env) 0 \<lparr>IP = [10, 0, 0, 1], Error = None\<rparr>)"
proof -
  let ?item = "\<lparr>IP = [10, 0, 0, 1], Error = None\<rparr>"
  have a: "setup_timed_out unreachable_session"
    by (simp add: setup_timed_out_def unreachable_session_def answering_session_def)
  have w1: "filter is_log_event
      (snd (snmpScan demo_opts unreachable_session [10, 0, 0, 1] 161 ''private'')) = []"
    using C6_timeouts_silent_errors_logged
      [where net = unreachable_session and opts = demo_opts and ip = "[10, 0, 0, 1]"
         and port = 161 and community = "''private''",
       THEN conjunct2, THEN conjunct2, THEN conjunct1, THEN mp, OF disjI1, OF a] .
  have b1: "reaches_read demo_opts silent_session [10, 0, 0, 1] 53
       (dns_buf (RandomChannelNumber silent_session) ''a.b'' (rand_Uint32 silent_session))"
    by (simp add: reaches_read_def silent_session_def answering_session_def demo_opts_def
        success_response_def)
  have b2: "read_timed_out silent_session"
    by (simp add: read_timed_out_def silent_session_def answering_session_def)
  have w2: "filter is_log_event
      (snd (dnsScan demo_opts silent_session [10, 0, 0, 1] 53 ''a.b'')) = []"
    using C6_timeouts_silent_errors_logged
      [where net = silent_session and opts = demo_opts and ip = "[10, 0, 0, 1]"
         and port = 53 and dnsName = "''a.b''",
       THEN conjunct2, THEN conjunct2, THEN conjunct2, THEN conjunct1, THEN mp,
       OF disjI2, OF conjI, OF b1 b2] .
  have v: "Validate demo_opts = None"
    by (rule Validate_demo_opts)
  have w3: "snd (UDPScanner demo_env demo_opts) =
       concat (map (\<lambda>j. scan_item demo_opts (sessions demo_env) j
                          (scan_items demo_env demo_opts ! j))
                 [0..<length (scan_items demo_env demo_opts)])"
    using C6_timeouts_silent_errors_logged
      [where opts = demo_opts and env = demo_env,
       THEN conjunct2, THEN conjunct2, THEN conjunct2, THEN conjunct2, THEN conjunct1,
       THEN mp, OF v] .
  have i: "Error ?item = None" "IP ?item = [10, 0, 0, 1]"
    by simp_all
  note item_demo = C6_timeouts_silent_errors_logged
      [where opts = demo_opts and item = ?item and j = 0 and nets = "sessions demo_env",
       THEN conjunct2, THEN conjunct2, THEN conjunct2, THEN conjunct2, THEN conjunct2,
       THEN mp, OF i(1), unfolded i(2)]
  note item_refused = C6_timeouts_silent_errors_logged
      [where opts = demo_opts and item = ?item and j = 0 and nets = "sessions refused_env",
       THEN conjunct2, THEN conjunct2, THEN conjunct2, THEN conjunct2, THEN conjunct2,
       THEN mp, OF i(1), unfolded i(2)]
  note item_silent = C6_timeouts_silent_errors_logged
      [where opts = demo_opts and item = ?item and j = 0 and nets = "sessions silent_env",
       THEN conjunct2, THEN conjunct2, THEN conjunct2, THEN conjunct2, THEN conjunct2,
       THEN mp, OF i(1), unfolded i(2)]
  have s1: "fst (snmpScan demo_opts (sessions demo_env 0 161) [10, 0, 0, 1] 161
              (CommunityString demo_opts)) = Some (Errorf ''connection refused'')"
    by (simp add: demo_env_def snmpScan_refused)
  have d1: "fst (dnsScan demo_opts (sessions demo_env 0 53) [10, 0, 0, 1] 53
              (DomainName demo_opts)) = None"
    by (simp add: demo_env_def dnsScan_silent)
  have d2: "fst (dnsScan demo_opts (sessions refused_env 0 53) [10, 0, 0, 1] 53
              (DomainName demo_opts)) = Some (Errorf ''connection refused'')"
    by (simp add: refused_env_def dnsScan_refused)
  have s2: "fst (snmpScan demo_opts (sessions silent_env 0 161) [10, 0, 0, 1] 161
              (CommunityString demo_opts)) = None"
    by (simp add: silent_env_def snmpScan_silent)
  from item_demo s1 d1
  have w4: "Call_SetupTurnConnection [10, 0, 0, 1] 53
       \<in> set (scan_item demo_opts (sessions demo_env) 0 ?item)"
    and w5: "Log_Errorf_SNMP [10, 0, 0, 1] (Errorf ''connection refused'')
       \<in> set (scan_item demo_opts (sessions demo_env) 0 ?item)"
    and w6: "Log_Errorf_DNS [10, 0, 0, 1] ErrTimeout
       \<notin> set (scan_item demo_opts (sessions demo_env) 0 ?item)"
    by blast+
  from item_refused d2
  have w7: "Log_Errorf_DNS [10, 0, 0, 1] (Errorf ''connection refused'')
       \<in> set (scan_item demo_opts (sessions refused_env) 0 ?item)"
    by blast
  from item_silent s2
  have w8: "Log_Errorf_SNMP [10, 0, 0, 1] ErrTimeout
       \<notin> set (scan_item demo_opts (sessions silent_env) 0 ?item)"
    by blast
  from a w1 b1 b2 w2 v w3 w4 w5 w6 w7 w8 show ?thesis by blast
qed

section \<open>C8: long community strings and long labels\<close>

lemma snmp_bytes_length_byte: "snmp_bytes community r ! 6 = of_nat (length community)"
  by (simp add: snmp_bytes_def snmp_inner_def)

lemma domain_labels_append:
  "domain_labels (xs @ ys) = domain_labels xs @ domain_labels ys"
  by (induction xs) simp_all

lemma Validate_None_iff:
  "Validate opts = None \<longleftrightarrow>
     TurnServer opts \<noteq> [] \<and> CHR '':'' \<in> set (TurnServer opts)
     \<and> (Protocol opts = ''tcp'' \<or> Protocol opts = ''udp'')
     \<and> Username opts \<noteq> [] \<and> Password opts \<noteq> [] \<and> Log opts \<noteq> None
     \<and> CommunityString opts \<noteq> [] \<and> DomainName opts \<noteq> []"
  by (simp add: Validate_def)

lemma Validate_long_opts: "Validate long_opts = None"
  by (simp add: Validate_def long_opts_def demo_opts_def)

lemma snmp_buf_length_byte:
  "snmp_buf channelNumber community r ! (length channelNumber + 8) = of_nat (length community)"
proof -
  have "snmp_buf channelNumber community r =
      (channelNumber @ PutUint16 (of_nat (length (snmp_bytes community r))) @ [0x30,
         of_nat (length (snmp_inner community r)), 0x02, 0x01, 1, 0x04])
      @ of_nat (length community)
        # (bytes_of community @ [0xa1, 0x19, 0x02, 0x04] @ PutUint32 r
           @ [0x02, 0x01, 0x00, 0x02, 0x01, 0x00, 0x30, 0x0b, 0x30, 0x09,
              0x06, 0x05, 0x2b, 0x06, 0x01, 0x02, 0x01, 0x05, 0x00])"
    by (simp add: snmp_buf_def snmp_bytes_def snmp_inner_def)
  moreover have "length (channelNumber @ PutUint16 (of_nat (length (snmp_bytes community r)))
      @ [0x30, of_nat (length (snmp_inner community r)), 0x02, 0x01, 1, 0x04])
      = length channelNumber + 8"
    by (simp add: length_PutUint16)
  ultimately show ?thesis
    by (metis nth_append_length)
qed

lemma dns_buf_length_byte:
  assumes "Split dnsName CHR ''.'' = before @ label # after"
  shows "dns_buf channelNumber dnsName r ! (length channelNumber + 14 + length (domain_labels before))
           = of_nat (length label)"
proof -
  have "dns_buf channelNumber dnsName r =
      (channelNumber @ PutUint16 (of_nat (length (dns_bytes dnsName r))) @ PutUint16 (ucast r)
         @ [0x01, 0x00] @ PutUint16 1 @ PutUint16 0 @ PutUint16 0 @ PutUint16 0
         @ domain_labels before)
      @ of_nat (length label)
        # (bytes_of label @ domain_labels after @ [0x00] @ PutUint16 1 @ PutUint16 1)"
    by (simp add: dns_buf_def dns_bytes_def domainBuf_def assms domain_labels_append)
  moreover have "length (channelNumber @ PutUint16 (of_nat (length (dns_bytes dnsName r)))
         @ PutUint16 (ucast r) @ [0x01, 0x00] @ PutUint16 1 @ PutUint16 0 @ PutUint16 0
         @ PutUint16 0 @ domain_labels before)
      = length channelNumber + 14 + length (domain_labels before)"
    by (simp add: length_PutUint16)
  ultimately show ?thesis
    by (metis nth_append_length)
qed

lemma Split_no_sep: "sep \<notin> set s \<Longrightarrow> Split s sep = [s]"
  by (induction s) auto

lemma Validate_long_label_opts: "Validate long_label_opts = None"
  by (simp add: Validate_def long_label_opts_def demo_opts_def)

text \<open>
  C8, as stated: a community string of more than 127 bytes makes the scanner return a
  configuration error before any probe. It fails: a configuration with a community
  string of 300 bytes passes validation, the scanner returns \<open>nil\<close>, and the SNMP
  probe is written with the length byte 44, which is 300 modulo 256.
\<close>

theorem C8_counterexample:
  "length (CommunityString long_opts) = 300
   \<and> Validate long_opts = None
   \<and> fst (UDPScanner silent_env long_opts) = None
   \<and> Call_ConnectionWrite (snmp_buf [0x40, 0x00] (CommunityString long_opts) 0xDEADBEEF)
       \<in> set (snd (UDPScanner silent_env long_opts))
   \<and> snmp_bytes (CommunityString long_opts) 0xDEADBEEF ! 6 = 44"
proof -
  have l: "length (CommunityString long_opts) = 300"
    by (simp add: long_opts_def)
  have t: "snd (UDPScanner silent_env long_opts) =
      scan_item long_opts (sessions silent_env) 0 \<lparr>IP = [10, 0, 0, 1], Error = None\<rparr>"
    by (simp add: UDPScanner_valid [OF Validate_long_opts] scan_items_def silent_env_def)
  have w: "Call_ConnectionWrite (snmp_buf [0x40, 0x00] (CommunityString long_opts) 0xDEADBEEF)
       \<in> set (snd (UDPScanner silent_env long_opts))"
    unfolding t by (simp add: scan_item_def silent_env_def snmpScan_silent)
  have b: "snmp_bytes (CommunityString long_opts) 0xDEADBEEF ! 6 = 44"
    by (simp add: snmp_bytes_length_byte l)
  from l Validate_long_opts w b show ?thesis
    by (simp add: UDPScanner_fst)
qed

text \<open>
  C8, amended: validation puts no bound on the length of the community string or of a
  label. A configuration passes validation exactly when the TURN server is given with a
  colon, the protocol is \<open>tcp\<close> or \<open>udp\<close>, and user name, password, logger, community
  string and domain name are present; a configuration that does not pass is answered
  with the validation error before anything else is done. For a configuration that
  passes, the scan writes, for every item without an iteration error whose SNMP probe
  gets as far as \<open>ConnectionWrite\<close>, the SNMP frame built from the community string of
  the configuration, and likewise the DNS frame built from its domain name. In every
  frame \<open>snmpScan\<close> writes, the length byte of the community string is the length of
  the community string modulo 256; in every frame \<open>dnsScan\<close> writes, the length byte
  of each label of the domain name is the length of the label modulo 256.
\<close>

theorem C8_no_length_bounds:
  "(Validate opts = None \<longleftrightarrow>
      TurnServer opts \<noteq> [] \<and> CHR '':'' \<in> set (TurnServer opts)
      \<and> (Protocol opts = ''tcp'' \<or> Protocol opts = ''udp'')
      \<and> Username opts \<noteq> [] \<and> Password opts \<noteq> [] \<and> Log opts \<noteq> None
      \<and> CommunityString opts \<noteq> [] \<and> DomainName opts \<noteq> [])
   \<and> (Validate opts \<noteq> None \<longrightarrow> UDPScanner env opts = (Validate opts, []))
   \<and> (Validate opts = None \<and> j < length (scan_items env opts)
        \<and> Error (scan_items env opts ! j) = None
        \<and> reaches_write opts (sessions env j 161) (IP (scan_items env opts ! j)) 161 \<longrightarrow>
      Call_ConnectionWrite
        (snmp_buf (RandomChannelNumber (sessions env j 161)) (CommunityString opts)
           (rand_Uint32 (sessions env j 161)))
        \<in> set (snd (UDPScanner env opts)))
   \<and> (Validate opts = None \<and> j < length (scan_items env opts)
        \<and> Error (scan_items env opts ! j) = None
        \<and> reaches_write opts (sessions env j 53) (IP (scan_items env opts ! j)) 53 \<longrightarrow>
      Call_ConnectionWrite
        (dns_buf (RandomChannelNumber (sessions env j 53)) (DomainName opts)
           (rand_Uint32 (sessions env j 53)))
        \<in> set (snd (UDPScanner env opts)))
   \<and> (\<forall>buf. Call_ConnectionWrite buf
               \<in> set (snd (snmpScan opts net ip port (CommunityString opts))) \<longrightarrow>
        unat (buf ! (length (RandomChannelNumber net) + 8))
          = length (CommunityString opts) mod 256)
   \<and> (\<forall>buf. Call_ConnectionWrite buf
               \<in> set (snd (dnsScan opts net ip port (DomainName opts)))
             \<and> Split (DomainName opts) CHR ''.'' = before @ label # after \<longrightarrow>
        unat (buf ! (length (RandomChannelNumber net) + 14 + length (domain_labels before)))
          = length label mod 256)"
proof (intro conjI impI allI)
  show "Validate opts = None \<longleftrightarrow>
      TurnServer opts \<noteq> [] \<and> CHR '':'' \<in> set (TurnServer opts)
      \<and> (Protocol opts = ''tcp'' \<or> Protocol opts = ''udp'')
      \<and> Username opts \<noteq> [] \<and> Password opts \<noteq> [] \<and> Log opts \<noteq> None
      \<and> CommunityString opts \<noteq> [] \<and> DomainName opts \<noteq> []"
    by (rule Validate_None_iff)
next
  assume "Validate opts \<noteq> None"
  then show "UDPScanner env opts = (Validate opts, [])"
    by (rule UDPScanner_invalid)
next
  assume a: "Validate opts = None \<and> j < length (scan_items env opts)
        \<and> Error (scan_items env opts ! j) = None
        \<and> reaches_write opts (sessions env j 161) (IP (scan_items env opts ! j)) 161"
  then have "Call_ConnectionWrite
        (snmp_buf (RandomChannelNumber (sessions env j 161)) (CommunityString opts)
           (rand_Uint32 (sessions env j 161)))
        \<in> set (scan_item opts (sessions env) j (scan_items env opts ! j))"
    by (simp add: scan_item_def snmpScan_reaches_write)
  with a show "Call_ConnectionWrite
        (snmp_buf (RandomChannelNumber (sessions env j 161)) (CommunityString opts)
           (rand_Uint32 (sessions env j 161)))
        \<in> set (snd (UDPScanner env opts))"
    using scan_item_in_UDPScanner [of opts j env] by blast
next
  assume a: "Validate opts = None \<and> j < length (scan_items env opts)
        \<and> Error (scan_items env opts ! j) = None
        \<and> reaches_write opts (sessions env j 53) (IP (scan_items env opts ! j)) 53"
  then have "Call_ConnectionWrite
        (dns_buf (RandomChannelNumber (sessions env j 53)) (DomainName opts)
           (rand_Uint32 (sessions env j 53)))
        \<in> set (scan_item opts (sessions env) j (scan_items env opts ! j))"
    by (simp add: scan_item_def dnsScan_reaches_write)
  with a show "Call_ConnectionWrite
        (dns_buf (RandomChannelNumber (sessions env j 53)) (DomainName opts)
           (rand_Uint32 (sessions env j 53)))
        \<in> set (snd (UDPScanner env opts))"
    using scan_item_in_UDPScanner [of opts j env] by blast
next
  fix buf
  assume "Call_ConnectionWrite buf \<in> set (snd (snmpScan opts net ip port (CommunityString opts)))"
  then have "buf = snmp_buf (RandomChannelNumber net) (CommunityString opts) (rand_Uint32 net)"
    by (rule snmpScan_writes)
  then show "unat (buf ! (length (RandomChannelNumber net) + 8))
      = length (CommunityString opts) mod 256"
    by (simp add: snmp_buf_length_byte unat_of_nat)
next
  fix buf
  assume a: "Call_ConnectionWrite buf \<in> set (snd (dnsScan opts net ip port (DomainName opts)))
      \<and> Split (DomainName opts) CHR ''.'' = before @ label # after"
  then have "buf = dns_buf (RandomChannelNumber net) (DomainName opts) (rand_Uint32 net)"
    by (blast dest: dnsScan_writes)
  with a show "unat (buf ! (length (RandomChannelNumber net) + 14 + length (domain_labels before)))
      = length label mod 256"
    by (simp add: dns_buf_length_byte unat_of_nat)
qed

theorem C8_no_length_bounds_witness:
  "Validate no_user_opts \<noteq> None
   \<and> UDPScanner silent_env no_user_opts = (Some (Errorf ''please supply a username''), [])
   \<and> Validate long_opts = None
   \<and> length (CommunityString long_opts) = 300
   \<and> Call_ConnectionWrite (snmp_buf [0x40, 0x00] (CommunityString long_opts) 0xDEADBEEF)
       \<in> set (snd (UDPScanner silent_env long_opts))
   \<and> unat (snmp_buf [0x40, 0x00] (CommunityString long_opts) 0xDEADBEEF ! 10) = 44
   \<and> Validate long_label_opts = None
   \<and> Split (DomainName long_label_opts) CHR ''.'' = [] @ replicate 300 CHR ''a'' # []
   \<and> Call_ConnectionWrite (dns_buf [0x40, 0x00] (DomainName long_label_opts) 0xDEADBEEF)
       \<in> set (snd (UDPScanner silent_env long_label_opts))
   \<and> unat (dns_buf [0x40, 0x00] (DomainName long_label_opts) 0xDEADBEEF ! 16) = 44"
proof -
  have n: "Validate no_user_opts = Some (Errorf ''please supply a username'')"
    by (simp add: Validate_def no_user_opts_def demo_opts_def)
  then have n': "Validate no_user_opts \<noteq> None"
    by simp
  from C8_no_length_bounds [where opts = no_user_opts and env = silent_env,
      THEN conjunct2, THEN conjunct1, THEN mp, OF n'] n
  have w1: "UDPScanner silent_env no_user_opts = (Some (Errorf ''please supply a username''), [])"
    by simp
  have l: "length (CommunityString long_opts) = 300"
    by (simp add: long_opts_def)
  have c: "RandomChannelNumber (sessions silent_env j p) = [0x40, 0x00]"
    "rand_Uint32 (sessions silent_env j p) = 0xDEADBEEF"
    "sessions silent_env j p = silent_session" for j p
    by (simp_all add: silent_env_def silent_session_def answering_session_def)
  have items: "scan_items silent_env opts = [\<lparr>IP = [10, 0, 0, 1], Error = None\<rparr>]" for opts
    by (simp add: scan_items_def silent_env_def)
  have h1: "Validate long_opts = None \<and> 0 < length (scan_items silent_env long_opts)
        \<and> Error (scan_items silent_env long_opts ! 0) = None
        \<and> reaches_write long_opts (sessions silent_env 0 161)
            (IP (scan_items silent_env long_opts ! 0)) 161"
    by (simp add: Validate_long_opts items c(3) reaches_write_silent_session)
  have w2: "Call_ConnectionWrite (snmp_buf [0x40, 0x00] (CommunityString long_opts) 0xDEADBEEF)
       \<in> set (snd (UDPScanner silent_env long_opts))"
    using C8_no_length_bounds [where opts = long_opts and env = silent_env and j = 0,
      THEN conjunct2, THEN conjunct2, THEN conjunct1, THEN mp, OF h1]
    by (simp only: c(1,2))
  have m1: "Call_ConnectionWrite (snmp_buf [0x40, 0x00] (CommunityString long_opts) 0xDEADBEEF)
       \<in> set (snd (snmpScan long_opts silent_session [10, 0, 0, 1] 161 (CommunityString long_opts)))"
    by (simp add: snmpScan_silent)
  have rc: "RandomChannelNumber silent_session = [0x40, 0x00]"
    by (simp add: silent_session_def answering_session_def)
  have w3: "unat (snmp_buf [0x40, 0x00] (CommunityString long_opts) 0xDEADBEEF ! 10) = 44"
    using C8_no_length_bounds [where opts = long_opts and net = silent_session
        and ip = "[10, 0, 0, 1]" and port = 161,
      THEN conjunct2, THEN conjunct2, THEN conjunct2, THEN conjunct2, THEN conjunct1,
      THEN spec, THEN mp, OF m1]
    by (simp add: rc l)
  have s: "Split (DomainName long_label_opts) CHR ''.'' = [] @ replicate 300 CHR ''a'' # []"
    by (simp add: long_label_opts_def Split_no_sep)
  have h2: "Validate long_label_opts = None \<and> 0 < length (scan_items silent_env long_label_opts)
        \<and> Error (scan_items silent_env long_label_opts ! 0) = None
        \<and> reaches_write long_label_opts (sessions silent_env 0 53)
            (IP (scan_items silent_env long_label_opts ! 0)) 53"
    by (simp add: Validate_long_label_opts items c(3) reaches_write_silent_session)
  have w4: "Call_ConnectionWrite (dns_buf [0x40, 0x00] (DomainName long_label_opts) 0xDEADBEEF)
       \<in> set (snd (UDPScanner silent_env long_label_opts))"
    using C8_no_length_bounds [where opts = long_label_opts and env = silent_env and j = 0,
      THEN conjunct2, THEN conjunct2, THEN conjunct2, THEN conjunct1, THEN mp, OF h2]
    by (simp only: c(1,2))
  have m2: "Call_ConnectionWrite (dns_buf [0x40, 0x00] (DomainName long_label_opts) 0xDEADBEEF)
       \<in> set (snd (dnsScan long_label_opts silent_session [10, 0, 0, 1] 53
                     (DomainName long_label_opts)))"
    by (simp add: dnsScan_silent)
  have w5: "unat (dns_buf [0x40, 0x00] (DomainName long_label_opts) 0xDEADBEEF ! 16) = 44"
    using C8_no_length_bounds [where opts = long_label_opts and net = silent_session
        and ip = "[10, 0, 0, 1]" and port = 53 and before = "[]"
        and label = "replicate 300 CHR ''a''" and after = "[]",
      THEN conjunct2, THEN conjunct2, THEN conjunct2, THEN conjunct2, THEN conjunct2,
      THEN spec, THEN mp, OF conjI, OF m2 s]
    by (simp add: rc)
  from n' w1 Validate_long_opts l w2 w3 Validate_long_label_opts s w4 w5
  show ?thesis by blast
qed

section \<open>C10: what the scanner returns\<close>

text \<open>
  C10: \<open>UDPScanner\<close> returns what \<open>Validate\<close> returns: \<open>nil\<close> for every
  configuration that passes validation, and otherwise the validation error, with nothing
  done before. In a scan, an iteration error is logged, and so is every error that the
  SNMP or the DNS probe of an item returns.
\<close>

theorem C10_only_validation_error_returned:
  "fst (UDPScanner env opts) = Validate opts
   \<and> (Validate opts \<noteq> None \<longrightarrow> snd (UDPScanner env opts) = [])
   \<and> (Validate opts = None \<and> j < length (scan_items env opts) \<longrightarrow>
        fst (UDPScanner env opts) = None
        \<and> (\<forall>e. Error (scan_items env opts ! j) = Some e \<longrightarrow>
               Log_Error e \<in> set (snd (UDPScanner env opts)))
        \<and> (Error (scan_items env opts ! j) = None \<longrightarrow>
             (\<forall>err. fst (snmpScan opts (sessions env j 161) (IP (scan_items env opts ! j)) 161
                          (CommunityString opts)) = Some err \<longrightarrow>
                Log_Errorf_SNMP (IP (scan_items env opts ! j)) err
                  \<in> set (snd (UDPScanner env opts)))
             \<and> (\<forall>err. fst (dnsScan opts (sessions env j 53) (IP (scan_items env opts ! j)) 53
                            (DomainName opts)) = Some err \<longrightarrow>
                  Log_Errorf_DNS (IP (scan_items env opts ! j)) err
                    \<in> set (snd (UDPScanner env opts)))))"
proof (intro conjI impI allI)
  show "fst (UDPScanner env opts) = Validate opts"
    by (rule UDPScanner_fst)
next
  assume "Validate opts \<noteq> None"
  then show "snd (UDPScanner env opts) = []"
    by (simp add: UDPScanner_invalid)
next
  assume "Validate opts = None \<and> j < length (scan_items env opts)"
  then show "fst (UDPScanner env opts) = None"
    by (simp add: UDPScanner_fst)
next
  fix e
  assume v: "Validate opts = None \<and> j < length (scan_items env opts)"
    and e: "Error (scan_items env opts ! j) = Some e"
  from e have "Log_Error e \<in> set (scan_item opts (sessions env) j (scan_items env opts ! j))"
    by (simp add: scan_item_def)
  with v show "Log_Error e \<in> set (snd (UDPScanner env opts))"
    using scan_item_in_UDPScanner [of opts j env] by blast
next
  fix err
  assume v: "Validate opts = None \<and> j < length (scan_items env opts)"
    and n: "Error (scan_items env opts ! j) = None"
    and s: "fst (snmpScan opts (sessions env j 161) (IP (scan_items env opts ! j)) 161
                   (CommunityString opts)) = Some err"
  from n s have "Log_Errorf_SNMP (IP (scan_items env opts ! j)) err
      \<in> set (scan_item opts (sessions env) j (scan_items env opts ! j))"
    by (simp add: scan_item_def)
  with v show "Log_Errorf_SNMP (IP (scan_items env opts ! j)) err
      \<in> set (snd (UDPScanner env opts))"
    using scan_item_in_UDPScanner [of opts j env] by blast
next
  fix err
  assume v: "Validate opts = None \<and> j < length (scan_items env opts)"
    and n: "Error (scan_items env opts ! j) = None"
    and s: "fst (dnsScan opts (sessions env j 53) (IP (scan_items env opts ! j)) 53
                   (DomainName opts)) = Some err"
  from n s have "Log_Errorf_DNS (IP (scan_items env opts ! j)) err
      \<in> set (scan_item opts (sessions env) j (scan_items env opts ! j))"
    by (simp add: scan_item_def)
  with v show "Log_Errorf_DNS (IP (scan_items env opts ! j)) err
      \<in> set (snd (UDPScanner env opts))"
    using scan_item_in_UDPScanner [of opts j env] by blast
qed

theorem C10_only_validation_error_returned_witness:
  "Validate no_user_opts = Some (Errorf ''please supply a username'')
   \<and> fst (UDPScanner demo_env no_user_opts) = Some (Errorf ''please supply a username'')
   \<and> snd (UDPScanner demo_env no_user_opts) = []
   \<and> Validate demo_opts = None
   \<and> fst (UDPScanner demo_env demo_opts) = None
   \<and> Log_Error (Errorf ''invalid ip'') \<in> set (snd (UDPScanner demo_env demo_opts))
   \<and> Log_Errorf_SNMP [10, 0, 0, 1] (Errorf ''connection refused'')
       \<in> set (snd (UDPScanner demo_env demo_opts))
   \<and> Log_Errorf_DNS [10, 0, 0, 1] (Errorf ''connection refused'')
       \<in> set (snd (UDPScanner refused_env demo_opts))"
proof -
  have n: "Validate no_user_opts = Some (Errorf ''please supply a username'')"
    by (simp add: Validate_def no_user_opts_def demo_opts_def)
  then have n': "Validate no_user_opts \<noteq> None"
    by simp
  have w1: "fst (UDPScanner demo_env no_user_opts) = Some (Errorf ''please supply a username'')"
    using C10_only_validation_error_returned [of demo_env no_user_opts, THEN conjunct1] n
    by simp
  have w2: "snd (UDPScanner demo_env no_user_opts) = []"
    using C10_only_validation_error_returned
      [of demo_env no_user_opts, THEN conjunct2, THEN conjunct1, THEN mp, OF n'] .
  have v: "Validate demo_opts = None"
    by (rule Validate_demo_opts)
  have items: "scan_items demo_env demo_opts =
      [\<lparr>IP = [10, 0, 0, 1], Error = None\<rparr>, \<lparr>IP = [], Error = Some (Errorf ''invalid ip'')\<rparr>]"
    by (simp add: scan_items_def demo_env_def)
  have items': "scan_items refused_env demo_opts = [\<lparr>IP = [10, 0, 0, 1], Error = None\<rparr>]"
    by (simp add: scan_items_def refused_env_def)
  have j1: "Validate demo_opts = None \<and> 1 < length (scan_items demo_env demo_opts)"
    using v by (simp add: items)
  have j0: "Validate demo_opts = None \<and> 0 < length (scan_items demo_env demo_opts)"
    using v by (simp add: items)
  have j0': "Validate demo_opts = None \<and> 0 < length (scan_items refused_env demo_opts)"
    using v by (simp add: items')
  have s1: "fst (snmpScan demo_opts (sessions demo_env 0 161) [10, 0, 0, 1] 161
              (CommunityString demo_opts)) = Some (Errorf ''connection refused'')"
    by (simp add: demo_env_def snmpScan_refused)
  have d1: "fst (dnsScan demo_opts (sessions refused_env 0 53) [10, 0, 0, 1] 53
              (DomainName demo_opts)) = Some (Errorf ''connection refused'')"
    by (simp add: refused_env_def dnsScan_refused)
  note at_1 = C10_only_validation_error_returned
      [of demo_env demo_opts 1, THEN conjunct2, THEN conjunct2, THEN mp, OF j1]
  note at_0 = C10_only_validation_error_returned
      [of demo_env demo_opts 0, THEN conjunct2, THEN conjunct2, THEN mp, OF j0]
  note at_0' = C10_only_validation_error_returned
      [of refused_env demo_opts 0, THEN conjunct2, THEN conjunct2, THEN mp, OF j0']
  from at_1 have w3: "fst (UDPScanner demo_env demo_opts) = None"
    by (rule conjunct1)
  from at_1 have w4: "Log_Error (Errorf ''invalid ip'') \<in> set (snd (UDPScanner demo_env demo_opts))"
    by (simp add: items)
  from at_0 s1 have w5: "Log_Errorf_SNMP [10, 0, 0, 1] (Errorf ''connection refused'')
       \<in> set (snd (UDPScanner demo_env demo_opts))"
    by (simp add: items)
  from at_0' d1 have w6: "Log_Errorf_DNS [10, 0, 0, 1] (Errorf ''connection refused'')
       \<in> set (snd (UDPScanner refused_env demo_opts))"
    by (simp add: items')
  from n w1 w2 v w3 w4 w5 w6 show ?thesis by blast
qed

end
